theory Spec2Isabelle
  imports Main "HOL-Library.Sublist"
begin

section \<open>Go strings and the standard-library functions the program calls\<close>

text \<open>
  A Go string is a sequence of bytes, so it is a \<^typ>\<open>string\<close> here (a list of 8-bit
  characters); \<open>len\<close> is \<^const>\<open>length\<close>.  An \<open>error\<close> value is represented by its
  message, the only thing the program ever does with one (\<open>%v\<close>).
\<close>

type_synonym error = string
type_synonym rune = nat

text \<open>
  The functions of Go's \<open>strings\<close>, \<open>unicode\<close>, \<open>utf8\<close>, \<open>strconv\<close> and \<open>filepath\<close>
  packages whose result depends on the Unicode tables or on the platform are parameters of
  the model: a theorem stated for \<open>L\<close> holds for each value of this record.
  \<open>decodeRunes\<close> is what \<open>for _, r := range s\<close> yields, \<open>encodeRune\<close> what
  \<open>Builder.WriteRune\<close> appends.  \<open>Atoi\<close> is \<open>None\<close> where \<open>strconv.Atoi\<close> returns an error
  (the program only tests that error against \<open>nil\<close>).
\<close>

record stdlib =
  ToLower :: "string \<Rightarrow> string"
  ToUpper :: "string \<Rightarrow> string"
  TrimSpace :: "string \<Rightarrow> string"
  decodeRunes :: "string \<Rightarrow> rune list"
  encodeRune :: "rune \<Rightarrow> string"
  IsLetter :: "rune \<Rightarrow> bool"
  IsDigit :: "rune \<Rightarrow> bool"
  Atoi :: "string \<Rightarrow> int option"
  Base :: "string \<Rightarrow> string"

text \<open>\<open>strings.Split(s, sep)\<close> for a one-byte separator: every field, empty ones included.\<close>

fun Split :: "string \<Rightarrow> char \<Rightarrow> string list" where
  "Split [] sep = [[]]"
| "Split (c # s) sep =
     (if c = sep then [] # Split s sep
      else (case Split s sep of [] \<Rightarrow> [[c]] | part # parts \<Rightarrow> (c # part) # parts))"

text \<open>\<open>strings.Join(elems, sep)\<close>.\<close>

fun Join :: "string list \<Rightarrow> string \<Rightarrow> string" where
  "Join [] sep = []"
| "Join [e] sep = e"
| "Join (e # es) sep = e @ sep @ Join es sep"

text \<open>\<open>strings.Contains(s, substr)\<close>.\<close>

definition Contains :: "string \<Rightarrow> string \<Rightarrow> bool" where
  "Contains s substr = sublist substr s"

text \<open>\<open>strings.ReplaceAll(s, old, new)\<close> for a one-byte \<open>old\<close>.\<close>

fun ReplaceAll :: "string \<Rightarrow> char \<Rightarrow> string \<Rightarrow> string" where
  "ReplaceAll [] old new = []"
| "ReplaceAll (c # s) old new = (if c = old then new else [c]) @ ReplaceAll s old new"

text \<open>\<open>strings.Repeat(s, count)\<close> for \<open>count \<ge> 0\<close>.\<close>

definition Repeat :: "string \<Rightarrow> nat \<Rightarrow> string" where
  "Repeat s count = concat (replicate count s)"

text \<open>\<open>strconv.Itoa\<close>, which is also what the verb \<open>%d\<close> prints.\<close>

definition digitChar :: "nat \<Rightarrow> char" where
  "digitChar d = (''0123456789'' ! d)"

fun decimal :: "nat \<Rightarrow> string" where
  "decimal n = (if n < 10 then [digitChar n] else decimal (n div 10) @ [digitChar (n mod 10)])"

declare decimal.simps [simp del]

definition Itoa :: "int \<Rightarrow> string" where
  "Itoa i = (if i < 0 then ''-'' @ decimal (nat (- i)) else decimal (nat i))"

text \<open>
  \<open>strings.FieldsFunc(s, f)\<close>: the maximal runs of bytes on which \<open>f\<close> is false.  The
  library decodes runes and cuts the byte string at the separators; the program's \<open>f\<close>
  holds of seven ASCII characters only, and in UTF-8 a byte below 0x80 is always a rune
  of its own, so the cut is the same on bytes.  \<open>start\<close> is the field being read
  (\<open>None\<close> for the library's \<open>start = -1\<close>), \<open>spans\<close> the fields found so far.
\<close>

fun FieldsFunc_loop :: "(char \<Rightarrow> bool) \<Rightarrow> string \<Rightarrow> string option \<Rightarrow> string list \<Rightarrow> string list" where
  "FieldsFunc_loop f [] start spans =
     (case start of None \<Rightarrow> spans | Some field \<Rightarrow> spans @ [field])"
| "FieldsFunc_loop f (c # s) start spans =
     (if f c then
        (case start of
           None \<Rightarrow> FieldsFunc_loop f s None spans
         | Some field \<Rightarrow> FieldsFunc_loop f s None (spans @ [field]))
      else
        (case start of
           None \<Rightarrow> FieldsFunc_loop f s (Some [c]) spans
         | Some field \<Rightarrow> FieldsFunc_loop f s (Some (field @ [c])) spans))"

definition FieldsFunc :: "string \<Rightarrow> (char \<Rightarrow> bool) \<Rightarrow> string list" where
  "FieldsFunc s f = FieldsFunc_loop f s None []"

section \<open>internal/utils/branch.go\<close>

text \<open>The callback that \<open>FormatBranchName\<close> hands to \<open>FieldsFunc\<close>.\<close>

definition isSeparator :: "char \<Rightarrow> bool" where
  "isSeparator r = (r = CHR '' '' \<or> r = CHR '':'' \<or> r = CHR ''!'' \<or> r = CHR ''?''
                    \<or> r = CHR '','' \<or> r = CHR '';'' \<or> r = CHR ''.'')"

text \<open>The inner loop over the runes of a word: letters and digits are written to the builder.\<close>

definition cleanWord :: "stdlib \<Rightarrow> string \<Rightarrow> string" where
  "cleanWord L word =
     concat (map (encodeRune L) (filter (\<lambda>r. IsLetter L r \<or> IsDigit L r) (decodeRunes L word)))"

text \<open>The outer loop, with its \<open>break\<close> once five candidates have been collected.\<close>

fun cleanLoop :: "stdlib \<Rightarrow> string list \<Rightarrow> string list \<Rightarrow> string list" where
  "cleanLoop L [] cleaned = cleaned"
| "cleanLoop L (word # words) cleaned =
     (let candidate = cleanWord L word;
          cleaned' = (if length candidate > 1 then cleaned @ [candidate] else cleaned)
      in if length cleaned' = 5 then cleaned' else cleanLoop L words cleaned')"

text \<open>\<open>pfx\<close> is the parameter \<open>prefix\<close> of the source.\<close>

definition FormatBranchName :: "stdlib \<Rightarrow> string \<Rightarrow> string \<Rightarrow> string \<Rightarrow> string" where
  "FormatBranchName L pfx ticketID summary =
     (let lowered = ToLower L summary;
          words = FieldsFunc lowered isSeparator;
          cleaned = cleanLoop L words []
      in if length cleaned = 0 then pfx @ ''/'' @ ticketID
         else pfx @ ''/'' @ ticketID @ ''/'' @ Join cleaned ''_'')"

text \<open>The one error \<open>ExtractTicketID\<close> returns; the specification calls it \<open>CorrelationError\<close>.\<close>

definition CorrelationError :: "string \<Rightarrow> error" where
  "CorrelationError branch =
     ''branch '' @ [CHR 0x27] @ branch @ [CHR 0x27] @ '' does not contain a ticket id''"

definition ExtractTicketID :: "string \<Rightarrow> error + string" where
  "ExtractTicketID branch =
     (let parts = Split branch CHR ''/'' in
      if length parts < 2 then Inl (CorrelationError branch)
      else
        let ticketPart = parts ! 1 in
        if \<not> Contains ticketPart ''-'' then Inl (CorrelationError branch)
        else
          let segments = Split ticketPart CHR ''-'' in
          if length segments < 2 then Inl (CorrelationError branch)
          else
            let ticketID = Join (take 2 segments) ''-'' in
            if ticketID = [] then Inl (CorrelationError branch)
            else Inr ticketID)"

section \<open>internal/config: \<open>MaskToken\<close>\<close>

text \<open>
  The bounds of the two slices, \<open>token[:min(4, len(token))]\<close> and
  \<open>token[max(0, len(token)-4):]\<close>, computed on Go \<open>int\<close>s.  Both are within range for every
  token, so the slices are \<^const>\<open>take\<close> and \<^const>\<open>drop\<close>: the head is the bytes at
  positions \<open>0 \<le> i < headEnd\<close>, the tail those at \<open>tailStart \<le> i < len(token)\<close>.
\<close>

definition headEnd :: "string \<Rightarrow> nat" where
  "headEnd token = nat (min 4 (int (length token)))"

definition tailStart :: "string \<Rightarrow> nat" where
  "tailStart token = nat (max 0 (int (length token) - 4))"

definition MaskToken :: "string \<Rightarrow> string" where
  "MaskToken token =
     (if int (length token) \<le> 4 then Repeat ''*'' (length token)
      else
        let head = take (headEnd token) token;
            tail = drop (tailStart token) token
        in head @ ''***'' @ tail)"

section \<open>internal/app/commands.go: \<open>escapeJQL\<close>\<close>

definition escapeJQL :: "string \<Rightarrow> string" where
  "escapeJQL v = ReplaceAll v (CHR 0x22) [CHR 0x5C, CHR 0x22]"

text \<open>
  Its sibling in \<open>internal/config\<close>, \<open>escape\<close>, which writes a value between double quotes
  as well: it doubles the backslashes first and then escapes the quotes.
\<close>

definition escape :: "string \<Rightarrow> string" where
  "escape v =
     ReplaceAll (ReplaceAll v (CHR 0x5C) [CHR 0x5C, CHR 0x5C]) (CHR 0x22) [CHR 0x5C, CHR 0x22]"

section \<open>internal/utils/colors.go\<close>

definition colorReset :: string where "colorReset = [CHR 0x1B] @ ''[0m''"
definition colorBold :: string where "colorBold = [CHR 0x1B] @ ''[1m''"
definition colorDim :: string where "colorDim = [CHR 0x1B] @ ''[2m''"
definition colorRed :: string where "colorRed = [CHR 0x1B] @ ''[31m''"
definition colorGreen :: string where "colorGreen = [CHR 0x1B] @ ''[32m''"
definition colorYellow :: string where "colorYellow = [CHR 0x1B] @ ''[33m''"
definition colorBlue :: string where "colorBlue = [CHR 0x1B] @ ''[34m''"
definition colorCyan :: string where "colorCyan = [CHR 0x1B] @ ''[36m''"
definition colorBrightWhite :: string where "colorBrightWhite = [CHR 0x1B] @ ''[97m''"

definition Colorize :: "string \<Rightarrow> string list \<Rightarrow> string" where
  "Colorize text codes = (if length codes = 0 then text else Join codes [] @ text @ colorReset)"

definition Cyan :: "string \<Rightarrow> string" where "Cyan text = Colorize text [colorCyan]"
definition Green :: "string \<Rightarrow> string" where "Green text = Colorize text [colorGreen]"
definition Yellow :: "string \<Rightarrow> string" where "Yellow text = Colorize text [colorYellow]"
definition Red :: "string \<Rightarrow> string" where "Red text = Colorize text [colorRed]"
definition Blue :: "string \<Rightarrow> string" where "Blue text = Colorize text [colorBlue]"
definition BrightWhite :: "string \<Rightarrow> string" where "BrightWhite text = Colorize text [colorBrightWhite]"
definition Bold :: "string \<Rightarrow> string" where "Bold text = Colorize text [colorBold]"
definition Dim :: "string \<Rightarrow> string" where "Dim text = Colorize text [colorDim]"

section \<open>internal/config and internal/models: the records\<close>

record AuthMethod =
  Type :: string
  Token :: string

record JiraConfig =
  URL :: string
  Email :: string
  ProjectKey :: string
  AuthMethod :: AuthMethod

record GitConfig =
  Provider :: string
  BaseURL :: string
  GitToken :: string
  Owner :: string
  Repo :: string

record Preferences =
  BranchPrefix :: string
  DefaultTransition :: string

record Settings =
  Jira :: JiraConfig
  Git :: GitConfig
  Preferences :: Preferences

text \<open>\<open>GitToken\<close> is the field \<open>Token\<close> of \<open>GitConfig\<close>.\<close>

definition ErrConfigNotFound :: error where
  "ErrConfigNotFound = ''configuration not found''"

record TicketStatus =
  Name :: string

record TicketUser =
  DisplayName :: string

record TicketFields =
  Summary :: string
  Description :: string
  Status :: TicketStatus
  TicketAssignee :: "TicketUser option"

record JiraTicket =
  Key :: string
  Fields :: TicketFields

text \<open>\<open>TicketAssignee\<close> is the pointer field \<open>Assignee\<close> of \<open>TicketFields\<close> (\<open>None\<close> for \<open>nil\<close>).\<close>

section \<open>internal/app/commands.go: the workflows\<close>

subsection \<open>The outside of the program\<close>

text \<open>
  One invocation of a command runs against a \<open>world\<close>: what the configuration file, the
  git working tree, the tracker, the code host, the JSON encoder and standard input
  answer.  Within one invocation a handler asks each question at most once (only the
  configuration is read again when \<open>search\<close> hands over to \<open>start\<close>), so one answer per
  question is enough.  \<open>git_NewClient\<close> answers with the root of the working tree, the
  one field of the client.  An \<open>event\<close> records a call that was made, with its arguments
  in the order of the Go method, or a text that was written to standard output; a
  handler returns the events in order together with its Go result (\<open>Inr ()\<close> for
  \<open>return nil\<close>, \<open>Inl err\<close> for \<open>return err\<close>).
\<close>

record world =
  config_Load :: "error + Settings"
  git_NewClient :: "error + string"
  git_CurrentBranch :: "error + string"
  git_IsClean :: "error + bool"
  git_CreateBranch :: "string \<Rightarrow> error + unit"
  git_Push :: "string \<Rightarrow> error + unit"
  jira_GetTicket :: "string \<Rightarrow> error + JiraTicket"
  jira_UpdateStatus :: "string \<Rightarrow> string \<Rightarrow> error + unit"
  jira_SearchWithJQL :: "string \<Rightarrow> int \<Rightarrow> error + JiraTicket list"
  github_CreatePullRequest :: "string \<Rightarrow> string \<Rightarrow> string \<Rightarrow> string \<Rightarrow> error + string"
  gitlab_CreateMergeRequest :: "string \<Rightarrow> string \<Rightarrow> string \<Rightarrow> string \<Rightarrow> string \<Rightarrow> error + string"
  json_MarshalIndent :: "JiraTicket list \<Rightarrow> error + string"
  stdin_ReadString :: "error + string"

datatype event =
    ConfigLoad
  | GitNewClient
  | GitCurrentBranch
  | GitIsClean
  | GitCreateBranch string
  | GitPush string
  | JiraGetTicket string
  | JiraUpdateStatus string string
  | JiraSearchWithJQL string int
  | GitHubCreatePullRequest string string string string
  | GitLabCreateMergeRequest string string string string string
  | StdinReadString
  | Stdout string

type_synonym 'a action = "event list \<times> (error + 'a)"

text \<open>\<open>x, err := m; if err != nil { return err }; k x\<close>.\<close>

definition andThen :: "'a action \<Rightarrow> ('a \<Rightarrow> 'b action) \<Rightarrow> 'b action" where
  "andThen m k =
     (case m of
        (es, Inl err) \<Rightarrow> (es, Inl err)
      | (es, Inr x) \<Rightarrow> (case k x of (es', r) \<Rightarrow> (es @ es', r)))"

text \<open>A call whose error is returned to the caller of the handler.\<close>

definition call :: "event \<Rightarrow> error + 'a \<Rightarrow> 'a action" where
  "call ev answer = ([ev], answer)"

text \<open>A call whose error the handler inspects itself.\<close>

definition attempt :: "event \<Rightarrow> error + 'a \<Rightarrow> (error + 'a) action" where
  "attempt ev answer = ([ev], Inr answer)"

definition print :: "string list \<Rightarrow> unit action" where
  "print texts = (map Stdout texts, Inr ())"

definition fail :: "error \<Rightarrow> 'a action" where
  "fail err = ([], Inl err)"

definition succeed :: "'a \<Rightarrow> 'a action" where
  "succeed x = ([], Inr x)"

abbreviation nl :: string where "nl \<equiv> [CHR 0x0A]"
abbreviation apostrophe :: string where "apostrophe \<equiv> [CHR 0x27]"
abbreviation quote :: string where "quote \<equiv> [CHR 0x22]"
abbreviation backslash :: string where "backslash \<equiv> [CHR 0x5C]"
abbreviation checkMark :: string where "checkMark \<equiv> [CHR 0xE2, CHR 0x9C, CHR 0x93]"
abbreviation sparkles :: string where "sparkles \<equiv> [CHR 0xE2, CHR 0x9C, CHR 0xA8]"

text \<open>The text \<open>fmt.Println(s)\<close> writes.\<close>

definition line :: "string \<Rightarrow> string" where
  "line s = s @ nl"

subsection \<open>\<open>loadSettings\<close>\<close>

text \<open>
  \<open>errors.Is(err, config.ErrConfigNotFound)\<close> is the comparison of the message with the
  sentinel's: every other error of \<open>config.Load\<close> starts with \<open>read config:\<close>,
  \<open>parse config:\<close> or \<open>resolve home dir:\<close>.
\<close>

definition loadSettings :: "world \<Rightarrow> Settings action" where
  "loadSettings w =
     call ConfigLoad
       (case config_Load w of
          Inl err \<Rightarrow>
            if err = ErrConfigNotFound
            then Inl (''configuration not found. Run '' @ apostrophe @ ''devflow init'' @ apostrophe @ '' first'')
            else Inl err
        | Inr settings \<Rightarrow> Inr settings)"

subsection \<open>\<open>handleStart\<close>\<close>

text \<open>The closing lines of \<open>handleStart\<close>.\<close>

definition startSummary :: "string \<Rightarrow> string \<Rightarrow> JiraTicket \<Rightarrow> string list" where
  "startSummary ticketID branchName ticket =
     [line [],
      line (Green (Bold (sparkles @ '' All set! You're ready to code!''))),
      line [],
      ''  '' @ Bold ''Ticket:'' @ '' '' @ BrightWhite ticketID @ nl,
      ''  '' @ Bold ''Branch:'' @ '' '' @ BrightWhite branchName @ nl,
      ''  '' @ Bold ''Summary:'' @ '' '' @ Dim (Summary (Fields ticket)) @ nl]"

text \<open>\<open>handleStart\<close> from \<open>Starting work on ...\<close> on, after the guard has let it pass.\<close>

definition startWork :: "stdlib \<Rightarrow> world \<Rightarrow> Settings \<Rightarrow> string \<Rightarrow> unit action" where
  "startWork L w settings ticketID =
     andThen (print [line (Cyan (Bold (''Starting work on '' @ ticketID @ ''...''))),
                      line [],
                      line (Dim ''  Fetching Jira ticket...'')]) (\<lambda>_.
     andThen (call (JiraGetTicket ticketID) (jira_GetTicket w ticketID)) (\<lambda>ticket.
     andThen (print [line (Green (''  '' @ checkMark @ '' Found: '' @ Summary (Fields ticket))),
                      line (Dim (''    Status: '' @ Name (Status (Fields ticket))))]) (\<lambda>_.
     let pfx = (if BranchPrefix (Preferences settings) = [] then ''feat''
                else BranchPrefix (Preferences settings));
         branchName = FormatBranchName L pfx ticketID (Summary (Fields ticket))
     in
     andThen (print [line [], line (Cyan (''  Creating branch: '' @ branchName))]) (\<lambda>_.
     andThen (call (GitCreateBranch branchName) (git_CreateBranch w branchName)) (\<lambda>_.
     let transition = DefaultTransition (Preferences settings) in
     andThen
       (if transition \<noteq> [] then
          andThen (print [line (Cyan (''  Updating Jira status to '' @ apostrophe @ transition
                                      @ apostrophe @ ''...''))]) (\<lambda>_.
          andThen (attempt (JiraUpdateStatus ticketID transition)
                     (jira_UpdateStatus w ticketID transition)) (\<lambda>r.
            case r of
              Inl err \<Rightarrow> print [line (Yellow (''  Could not update status: '' @ err))]
            | Inr _ \<Rightarrow> print [line (Green (''  '' @ checkMark @ '' Status updated to '' @ apostrophe
                                          @ transition @ apostrophe))]))
        else succeed ()) (\<lambda>_.
     print (startSummary ticketID branchName ticket)))))))"

definition handleStart :: "stdlib \<Rightarrow> world \<Rightarrow> string \<Rightarrow> unit action" where
  "handleStart L w ticketID =
     andThen (loadSettings w) (\<lambda>settings.
     andThen (call GitNewClient (git_NewClient w)) (\<lambda>gitClient.
     andThen (attempt GitCurrentBranch (git_CurrentBranch w)) (\<lambda>current.
       case current of
         Inr branch \<Rightarrow>
           if Contains (ToUpper L branch) (ToUpper L ticketID) then
             print [line (Yellow (''Already on branch: '' @ branch)),
                     line (Dim (''Run '' @ apostrophe @ ''devflow status'' @ apostrophe
                              @ '' to see current state''))]
           else startWork L w settings ticketID
       | Inl err \<Rightarrow> startWork L w settings ticketID)))"

subsection \<open>\<open>handleDone\<close>\<close>

definition uncommittedChanges :: error where
  "uncommittedChanges =
     ''uncommitted changes detected. Commit or stash before running '' @ apostrophe
     @ ''devflow done'' @ apostrophe"

text \<open>The closing lines of \<open>handleDone\<close>.\<close>

definition doneSummary :: "string \<Rightarrow> string \<Rightarrow> string \<Rightarrow> string \<Rightarrow> string list" where
  "doneSummary ticketID branch label prURL =
     [line [],
      line (Green (Bold ''All done! Ready for review!'')),
      ''  '' @ Bold ''Ticket:'' @ '' '' @ BrightWhite ticketID @ nl,
      ''  '' @ Bold ''Branch:'' @ '' '' @ BrightWhite branch @ nl,
      ''  '' @ Bold (label @ '':'') @ '' '' @ Cyan prURL @ nl]"

text \<open>
  The \<open>switch provider\<close> of \<open>handleDone\<close> with the \<open>if err != nil\<close> that follows it:
  the one place where a pull or merge request is created.
\<close>

definition createRequest ::
  "stdlib \<Rightarrow> world \<Rightarrow> Settings \<Rightarrow> string \<Rightarrow> string \<Rightarrow> string \<Rightarrow> string \<Rightarrow> string \<Rightarrow> string action" where
  "createRequest L w settings provider gitClient branch prTitle prDescription =
     (if provider = ''github'' then
        if Owner (Git settings) = [] \<or> Repo (Git settings) = []
        then fail ''GitHub owner/repo not configured''
        else
          andThen (print [line (Dim ''  Creating pull request...'')]) (\<lambda>_.
          call (GitHubCreatePullRequest branch ''main'' prTitle prDescription)
               (github_CreatePullRequest w branch ''main'' prTitle prDescription))
      else if provider = ''gitlab'' then
        andThen (print [line (Dim ''  Creating merge request...'')]) (\<lambda>_.
        let projectPath = Base L gitClient in
        call (GitLabCreateMergeRequest projectPath branch ''main'' prTitle prDescription)
             (gitlab_CreateMergeRequest w projectPath branch ''main'' prTitle prDescription))
      else fail (''unsupported git provider: '' @ provider))"

definition handleDone :: "stdlib \<Rightarrow> world \<Rightarrow> unit action" where
  "handleDone L w =
     andThen (loadSettings w) (\<lambda>settings.
     andThen (call GitNewClient (git_NewClient w)) (\<lambda>gitClient.
     andThen (call GitIsClean (git_IsClean w)) (\<lambda>clean.
     if \<not> clean then fail uncommittedChanges
     else
     andThen (call GitCurrentBranch (git_CurrentBranch w)) (\<lambda>branch.
     andThen ([], ExtractTicketID branch) (\<lambda>ticketID.
     andThen (print [line (Cyan (Bold ''Finalizing work...'')),
                     line [],
                     line (Dim ''  Pushing branch to remote...'')]) (\<lambda>_.
     andThen (call (GitPush branch) (git_Push w branch)) (\<lambda>_.
     andThen (print [line (Dim ''  Fetching ticket information...'')]) (\<lambda>_.
     andThen (call (JiraGetTicket ticketID) (jira_GetTicket w ticketID)) (\<lambda>ticket.
     let prTitle = ticketID @ '': '' @ Summary (Fields ticket);
         prDescription = ''Resolves '' @ ticketID @ nl @ nl @ ''Jira: '' @ URL (Jira settings)
                         @ ''/browse/'' @ ticketID;
         provider = ToLower L (Provider (Git settings))
     in
     andThen (createRequest L w settings provider gitClient branch prTitle prDescription) (\<lambda>prURL.
     andThen (print [line (Dim (''  Updating Jira status to '' @ apostrophe @ ''In Review''
                                @ apostrophe @ ''...''))]) (\<lambda>_.
     andThen (attempt (JiraUpdateStatus ticketID ''In Review'')
                (jira_UpdateStatus w ticketID ''In Review'')) (\<lambda>r.
     andThen
       (case r of
          Inl err \<Rightarrow> print [line (Yellow (''  Could not update status: '' @ err))]
        | Inr _ \<Rightarrow> print [line (Green (''  '' @ checkMark @ '' Status updated to '' @ apostrophe
                                     @ ''In Review'' @ apostrophe))]) (\<lambda>_.
     let label = (if provider = ''gitlab'' then ''MR'' else ''PR'') in
     print (doneSummary ticketID branch label prURL))))))))))))))"

subsection \<open>\<open>handleList\<close> and \<open>handleSearch\<close>\<close>

definition colorStatus :: "string \<Rightarrow> string" where
  "colorStatus status =
     (if status = ''In Progress'' then Green status
      else if status = ''To Do'' then Yellow status
      else if status = ''In Review'' \<or> status = ''Code Review'' then Blue status
      else if status = ''Done'' then Dim status
      else status)"

definition printTicketList :: "JiraTicket list \<Rightarrow> unit action" where
  "printTicketList tickets =
     print (map (\<lambda>ticket. ''  '' @ Bold (BrightWhite (Key ticket)) @ '' [''
                           @ colorStatus (Name (Status (Fields ticket))) @ '']  ''
                           @ Summary (Fields ticket) @ nl) tickets)"

definition handleList :: "stdlib \<Rightarrow> world \<Rightarrow> string \<Rightarrow> string \<Rightarrow> bool \<Rightarrow> unit action" where
  "handleList L w statusFilter projectFilter jsonOutput =
     andThen (loadSettings w) (\<lambda>settings.
     let project = (if TrimSpace L projectFilter = [] then ProjectKey (Jira settings)
                    else TrimSpace L projectFilter);
         jqlParts = [''assignee = currentUser()'']
                    @ (if project \<noteq> [] then [''project = '' @ project] else [])
                    @ (if statusFilter \<noteq> [] then [''status = '' @ quote @ statusFilter @ quote] else []);
         jql = Join jqlParts '' AND ''
     in
     andThen (call (JiraSearchWithJQL jql 50) (jira_SearchWithJQL w jql 50)) (\<lambda>tickets.
     if jsonOutput then
       andThen ([], json_MarshalIndent w tickets) (\<lambda>data.
       print [line data])
     else
       andThen (print [line (Cyan (Bold ''Your Assigned Tickets'')), line []]) (\<lambda>_.
       if length tickets = 0 then print [line (Dim ''  No tickets assigned to you'')]
       else
         andThen (print [Dim [] @ ''  '' @ Itoa (int (length tickets)) @ '' tickets found'' @ nl @ nl]) (\<lambda>_.
         printTicketList tickets))))"

record searchOptions =
  Query :: string
  Assignee :: string
  SearchStatus :: string
  Project :: string
  Limit :: int
  Interactive :: bool

text \<open>\<open>SearchStatus\<close> is the field \<open>Status\<close> of \<open>searchOptions\<close>.\<close>

definition promptSelection :: "stdlib \<Rightarrow> world \<Rightarrow> int \<Rightarrow> int action" where
  "promptSelection L w count =
     (if count = 0 then succeed (- 1)
      else
        andThen (print [''Select a ticket number (or press Enter to cancel): '']) (\<lambda>_.
        andThen (call StdinReadString (stdin_ReadString w)) (\<lambda>input.
        let input = TrimSpace L input in
        if input = [] then succeed (- 1)
        else
          case Atoi L input of
            None \<Rightarrow> fail (''invalid selection: '' @ input)
          | Some idx \<Rightarrow>
              if idx < 1 \<or> idx > count
              then fail (''selection out of range (1-'' @ Itoa count @ '')'')
              else succeed (idx - 1))))"

text \<open>The clauses \<open>handleSearch\<close> collects in \<open>jqlParts\<close>, in the order it appends them.\<close>

definition searchJQLParts :: "stdlib \<Rightarrow> Settings \<Rightarrow> searchOptions \<Rightarrow> string list" where
  "searchJQLParts L settings opts =
     (let project = (if TrimSpace L (Project opts) = [] then ProjectKey (Jira settings)
                     else TrimSpace L (Project opts))
      in
      [''(summary ~ '' @ quote @ escapeJQL (Query opts) @ quote @ '' OR description ~ '' @ quote
         @ escapeJQL (Query opts) @ quote @ '')'']
      @ (if project \<noteq> [] then [''project = '' @ project] else [])
      @ (if Assignee opts \<noteq> [] then
           (if Assignee opts = ''me'' then [''assignee = currentUser()'']
            else [''assignee = '' @ quote @ Assignee opts @ quote])
         else [])
      @ (if SearchStatus opts \<noteq> [] then [''status = '' @ quote @ SearchStatus opts @ quote] else []))"

text \<open>The notice \<open>handleSearch\<close> prints when as many tickets came back as were asked for.\<close>

definition truncationNotice :: "int \<Rightarrow> string list" where
  "truncationNotice limit =
     [line [],
      line (Dim (''  Showing '' @ Itoa limit
                 @ '' of potentially more results. Use --limit to see more.''))]"

definition handleSearch :: "stdlib \<Rightarrow> world \<Rightarrow> searchOptions \<Rightarrow> unit action" where
  "handleSearch L w opts =
     andThen (loadSettings w) (\<lambda>settings.
     andThen (print [line (Cyan (Bold (''Searching for: '' @ quote @ Query opts @ quote))), line []]) (\<lambda>_.
     let jql = Join (searchJQLParts L settings opts) '' AND '' in
     andThen (print [line (Dim (''  JQL: '' @ jql)), line []]) (\<lambda>_.
     andThen (call (JiraSearchWithJQL jql (Limit opts)) (jira_SearchWithJQL w jql (Limit opts))) (\<lambda>tickets.
     if length tickets = 0 then print [line (Dim ''  No tickets found'')]
     else
       andThen (print (map (\<lambda>(i, ticket).
                  ''  '' @ Dim (Itoa (int i + 1)) @ ''. '' @ BrightWhite (Key ticket) @ '' [''
                  @ colorStatus (Name (Status (Fields ticket))) @ '']  ''
                  @ Summary (Fields ticket) @ nl) (enumerate 0 tickets))) (\<lambda>_.
       andThen (if int (length tickets) = Limit opts then print (truncationNotice (Limit opts))
                else succeed ()) (\<lambda>_.
       if Interactive opts then
         andThen (promptSelection L w (int (length tickets))) (\<lambda>idx.
         if idx \<ge> 0 then
           if nat idx < length tickets then
             let selected = tickets ! nat idx in
             andThen (print [line [],
                             line (Cyan (Bold (''Starting work on '' @ Key selected @ ''...'')))]) (\<lambda>_.
             handleStart L w (Key selected))
           else fail ''panic: runtime error: index out of range''
         else print [line [], line (Yellow ''No ticket selected'')])
       else succeed ()))))))"

section \<open>The standard library on ASCII text\<close>

text \<open>
  For evaluating the program on concrete inputs: the value of \<^typ>\<open>stdlib\<close> that agrees
  with Go's library on strings whose bytes are all below 0x80.  There a rune is one byte,
  the letters are \<open>A-Z\<close> and \<open>a-z\<close>, the digits \<open>0-9\<close>, and white space is the space and
  the bytes 9 to 13.
\<close>

definition asciiUpper :: "char \<Rightarrow> bool" where
  "asciiUpper c = (65 \<le> (of_char c :: nat) \<and> (of_char c :: nat) \<le> 90)"

definition asciiLower :: "char \<Rightarrow> bool" where
  "asciiLower c = (97 \<le> (of_char c :: nat) \<and> (of_char c :: nat) \<le> 122)"

definition asciiLetter :: "char \<Rightarrow> bool" where
  "asciiLetter c = (asciiUpper c \<or> asciiLower c)"

definition asciiDigit :: "char \<Rightarrow> bool" where
  "asciiDigit c = (48 \<le> (of_char c :: nat) \<and> (of_char c :: nat) \<le> 57)"

definition asciiSpace :: "char \<Rightarrow> bool" where
  "asciiSpace c = (c = CHR '' '' \<or> (9 \<le> (of_char c :: nat) \<and> (of_char c :: nat) \<le> 13))"

text \<open>Upper and lower case of an ASCII letter differ in the bit of value 32.\<close>

definition asciiToLower :: "char \<Rightarrow> char" where
  "asciiToLower c =
     (if asciiUpper c
      then (case c of Char b0 b1 b2 b3 b4 b5 b6 b7 \<Rightarrow> Char b0 b1 b2 b3 b4 True b6 b7)
      else c)"

definition asciiToUpper :: "char \<Rightarrow> char" where
  "asciiToUpper c =
     (if asciiLower c
      then (case c of Char b0 b1 b2 b3 b4 b5 b6 b7 \<Rightarrow> Char b0 b1 b2 b3 b4 False b6 b7)
      else c)"

definition asciiTrimSpace :: "string \<Rightarrow> string" where
  "asciiTrimSpace s = rev (dropWhile asciiSpace (rev (dropWhile asciiSpace s)))"

text \<open>\<open>strconv.Atoi\<close>: an optional sign, then decimal digits, within the 64-bit range.\<close>

definition asciiAtoi :: "string \<Rightarrow> int option" where
  "asciiAtoi s =
     (let negative = (take 1 s = ''-'');
          ds = (if take 1 s = ''-'' \<or> take 1 s = ''+'' then drop 1 s else s);
          v = int (foldl (\<lambda>acc c. 10 * acc + (of_char c - 48)) 0 ds);
          n = (if negative then - v else v)
      in if ds = [] then None
         else if list_all asciiDigit ds
         then (if - (2 ^ 63) \<le> n \<and> n \<le> 2 ^ 63 - 1 then Some n else None)
         else None)"

text \<open>\<open>filepath.Base\<close> with the separator \<open>/\<close>.\<close>

definition posixBase :: "string \<Rightarrow> string" where
  "posixBase path =
     (if path = [] then ''.''
      else
        let stripped = rev (dropWhile (\<lambda>c. c = CHR ''/'') (rev path))
        in if stripped = [] then ''/''
           else rev (takeWhile (\<lambda>c. c \<noteq> CHR ''/'') (rev stripped)))"

definition ascii_stdlib :: stdlib where
  "ascii_stdlib =
     \<lparr> ToLower = map asciiToLower,
       ToUpper = map asciiToUpper,
       TrimSpace = asciiTrimSpace,
       decodeRunes = map of_char,
       encodeRune = (\<lambda>r. [char_of r]),
       IsLetter = (\<lambda>r. (65 \<le> r \<and> r \<le> 90) \<or> (97 \<le> r \<and> r \<le> 122)),
       IsDigit = (\<lambda>r. 48 \<le> r \<and> r \<le> 57),
       Atoi = asciiAtoi,
       Base = posixBase \<rparr>"

section \<open>The specification's wording of the branch name\<close>

text \<open>
  The specification describes \<open>formatBranchName\<close> as a pipeline: lower-case, split, strip,
  discard, keep five, join.  \<open>spec_formatBranchName\<close> is that pipeline, for a given set of
  separators; the tokens are the non-empty pieces between separators (an empty piece
  would in any case be discarded as too short).  A cleaned token is the list of the
  characters (runes) that are left of the token, its length the number of them;
  \<open>spec_text\<close> writes it out as bytes.
\<close>

fun splitOn :: "(char \<Rightarrow> bool) \<Rightarrow> string \<Rightarrow> string list" where
  "splitOn sep [] = [[]]"
| "splitOn sep (c # s) =
     (if sep c then [] # splitOn sep s
      else (case splitOn sep s of [] \<Rightarrow> [[c]] | t # ts \<Rightarrow> (c # t) # ts))"

definition spec_tokens :: "(char \<Rightarrow> bool) \<Rightarrow> string \<Rightarrow> string list" where
  "spec_tokens sep s = filter (\<lambda>t. t \<noteq> []) (splitOn sep s)"

definition spec_strip :: "stdlib \<Rightarrow> string \<Rightarrow> rune list" where
  "spec_strip L t = filter (\<lambda>r. IsLetter L r \<or> IsDigit L r) (decodeRunes L t)"

definition spec_text :: "stdlib \<Rightarrow> rune list \<Rightarrow> string" where
  "spec_text L rs = concat (map (encodeRune L) rs)"

definition spec_formatBranchName ::
  "(char \<Rightarrow> bool) \<Rightarrow> stdlib \<Rightarrow> string \<Rightarrow> string \<Rightarrow> string \<Rightarrow> string" where
  "spec_formatBranchName sep L p ticketID summary =
     (let tokens = spec_tokens sep (ToLower L summary);
          survivors = filter (\<lambda>rs. 1 < length rs) (map (spec_strip L) tokens);
          kept = take 5 survivors
      in if kept = [] then p @ ''/'' @ ticketID
         else p @ ''/'' @ ticketID @ ''/'' @ Join (map (spec_text L) kept) ''_'')"

definition punctuation :: "char \<Rightarrow> bool" where
  "punctuation c = (c = CHR '':'' \<or> c = CHR ''!'' \<or> c = CHR ''?'' \<or> c = CHR '',''
                    \<or> c = CHR '';'' \<or> c = CHR ''.'')"

text \<open>The separators as the claim words them: white space and the six punctuation marks.\<close>

definition whitespaceOrPunctuation :: "char \<Rightarrow> bool" where
  "whitespaceOrPunctuation c = (asciiSpace c \<or> punctuation c)"

text \<open>The separators of the amended claim: the space character and the six marks.\<close>

definition spaceOrPunctuation :: "char \<Rightarrow> bool" where
  "spaceOrPunctuation c = (c = CHR '' '' \<or> punctuation c)"

text \<open>An event that reaches the tracker, and one that changes the repository.\<close>

fun trackerOperation :: "event \<Rightarrow> bool" where
  "trackerOperation (JiraGetTicket _) = True"
| "trackerOperation (JiraUpdateStatus _ _) = True"
| "trackerOperation (JiraSearchWithJQL _ _) = True"
| "trackerOperation _ = False"

fun versionControlMutation :: "event \<Rightarrow> bool" where
  "versionControlMutation (GitCreateBranch _) = True"
| "versionControlMutation (GitPush _) = True"
| "versionControlMutation _ = False"

fun codeHostOperation :: "event \<Rightarrow> bool" where
  "codeHostOperation (GitHubCreatePullRequest _ _ _ _) = True"
| "codeHostOperation (GitLabCreateMergeRequest _ _ _ _ _) = True"
| "codeHostOperation _ = False"

section \<open>Sample worlds\<close>

text \<open>
  The configuration, the ticket and the answers of \<open>TestEndToEndWorkflow\<close> in
  \<open>app_test.go\<close>: a clean repository on \<open>main\<close>, GitLab as the code host, a tracker that
  knows \<open>TEST-1\<close>.  The theorems are instantiated on variations of this world; none of
  the runs below asks for JSON output or reads standard input.
\<close>

definition testSettings :: Settings where
  "testSettings =
     \<lparr> Jira = \<lparr> URL = ''https://jira.example.com'', Email = ''dev@example.com'',
                ProjectKey = ''TEST'',
                AuthMethod = \<lparr> Type = ''api_token'', Token = ''token'' \<rparr> \<rparr>,
       Git = \<lparr> Provider = ''gitlab'', BaseURL = ''https://gitlab.example.com'',
               GitToken = ''git-token'', Owner = [], Repo = [] \<rparr>,
       Preferences = \<lparr> BranchPrefix = ''feat'', DefaultTransition = ''In Progress'' \<rparr> \<rparr>"

definition testTicket :: JiraTicket where
  "testTicket =
     \<lparr> Key = ''TEST-1'',
       Fields = \<lparr> Summary = ''Implement widget'', Description = [],
                  Status = \<lparr> Name = ''To Do'' \<rparr>, TicketAssignee = None \<rparr> \<rparr>"

definition testWorld :: world where
  "testWorld =
     \<lparr> config_Load = Inr testSettings,
       git_NewClient = Inr ''/home/dev/widgets'',
       git_CurrentBranch = Inr ''main'',
       git_IsClean = Inr True,
       git_CreateBranch = (\<lambda>branch. Inr ()),
       git_Push = (\<lambda>branch. Inr ()),
       jira_GetTicket = (\<lambda>ticketID. Inr testTicket),
       jira_UpdateStatus = (\<lambda>ticketID status. Inr ()),
       jira_SearchWithJQL = (\<lambda>jql limit. Inr []),
       github_CreatePullRequest = (\<lambda>source target title description. Inr ''https://github.example.com/pr/1''),
       gitlab_CreateMergeRequest = (\<lambda>project source target title description. Inr ''https://gitlab.example.com/mr/1''),
       json_MarshalIndent = (\<lambda>tickets. Inr ''null''),
       stdin_ReadString = Inl ''EOF'' \<rparr>"

text \<open>After \<open>start TEST-1\<close>: on the ticket's branch.\<close>

definition branchWorld :: world where
  "branchWorld = testWorld \<lparr> git_CurrentBranch := Inr ''feat/TEST-1/implement_widget'' \<rparr>"

text \<open>The same with uncommitted changes in the working tree.\<close>

definition dirtyWorld :: world where
  "dirtyWorld = branchWorld \<lparr> git_IsClean := Inr False \<rparr>"

text \<open>A tracker that knows no transition of the name asked for (the error of \<open>UpdateStatus\<close>).\<close>

definition transitionNotFound :: "string \<Rightarrow> string \<Rightarrow> error + unit" where
  "transitionNotFound ticketID status =
     Inl (''transition '' @ apostrophe @ status @ apostrophe @ '' not found'')"

definition refusingWorld :: world where
  "refusingWorld = testWorld \<lparr> jira_UpdateStatus := transitionNotFound \<rparr>"

definition refusingBranchWorld :: world where
  "refusingBranchWorld = branchWorld \<lparr> jira_UpdateStatus := transitionNotFound \<rparr>"

text \<open>GitHub as the code host, written \<open>GitHub\<close> in the configuration.\<close>

definition githubWorld :: world where
  "githubWorld =
     branchWorld \<lparr> config_Load :=
       Inr (testSettings \<lparr> Git := \<lparr> Provider = ''GitHub'', BaseURL = ''https://api.github.com'',
                                     GitToken = ''git-token'', Owner = ''acme'', Repo = ''widgets'' \<rparr> \<rparr>) \<rparr>"

text \<open>A tracker with sixty matching tickets, which returns as many as the caller asks for.\<close>

definition sixtyWorld :: world where
  "sixtyWorld =
     testWorld \<lparr> jira_SearchWithJQL := (\<lambda>jql limit. Inr (replicate (nat (min limit 60)) testTicket)) \<rparr>"

definition testSearch :: searchOptions where
  "testSearch =
     \<lparr> Query = ''say '' @ quote @ ''hi'' @ quote, Assignee = ''me'', SearchStatus = ''To Do'',
       Project = [], Limit = 2, Interactive = False \<rparr>"

text \<open>
  Reading a text that stands between double quotes, where a backslash escapes the
  character after it: \<open>closesLiteral\<close> holds when the text contains a quote that is not
  escaped, which ends the quoted literal before the text is over.
\<close>

fun closesLiteral :: "string \<Rightarrow> bool" where
  "closesLiteral [] = False"
| "closesLiteral [c] = (c = CHR 0x22)"
| "closesLiteral (c # d # s) =
     (if c = CHR 0x22 then True
      else if c = CHR 0x5C then closesLiteral s
      else closesLiteral (d # s))"

text \<open>A search whose free text contains a backslash followed by a quote.\<close>

definition backslashSearch :: searchOptions where
  "backslashSearch =
     \<lparr> Query = ''a'' @ backslash @ quote @ ''b'', Assignee = [], SearchStatus = [],
       Project = [], Limit = 10, Interactive = False \<rparr>"

section \<open>Verification: the name and ID correlator\<close>

subsection \<open>Facts about the string functions\<close>

lemma Split_not_Nil: "Split s c \<noteq> []"
  by (induction s) (auto split: list.splits)

lemma length_Split: "length (Split s c) = Suc (length (filter (\<lambda>x. x = c) s))"
  by (induction s) (auto split: list.splits simp: Split_not_Nil)

lemma Split_no_sep: "c \<notin> set s \<Longrightarrow> Split s c = [s]"
  by (induction s) auto

lemma Split_first: "c \<notin> set a \<Longrightarrow> Split (a @ c # b) c = a # Split b c"
  by (induction a) auto

lemma Split_two: "c \<in> set s \<Longrightarrow> 2 \<le> length (Split s c)"
  by (simp add: length_Split Suc_le_eq filter_empty_conv)

lemma Contains_single: "Contains s [c] \<longleftrightarrow> c \<in> set s"
  unfolding Contains_def
  by (induction s) (auto simp: sublist_Cons_right)

lemma Join_two_not_Nil: "2 \<le> length xs \<Longrightarrow> Join (take 2 xs) ''-'' \<noteq> []"
proof (cases xs)
  case Nil
  then show "2 \<le> length xs \<Longrightarrow> ?thesis" by simp
next
  case (Cons a as)
  then show "2 \<le> length xs \<Longrightarrow> ?thesis"
    by (cases as) (simp_all add: numeral_2_eq_2)
qed

lemma Repeat_single: "Repeat [c] n = replicate n c"
  by (induction n) (simp_all add: Repeat_def)

subsection \<open>The ASCII library, evaluated\<close>

lemma cleanWord_ascii:
  "cleanWord ascii_stdlib word = filter (\<lambda>c. asciiLetter c \<or> asciiDigit c) word"
  by (induction word)
     (auto simp: cleanWord_def ascii_stdlib_def asciiLetter_def asciiDigit_def
                 asciiUpper_def asciiLower_def)

lemma ascii_ToLower: "ToLower ascii_stdlib = map asciiToLower"
  by (simp add: ascii_stdlib_def)

lemma ascii_ToUpper: "ToUpper ascii_stdlib = map asciiToUpper"
  by (simp add: ascii_stdlib_def)

lemma ascii_TrimSpace: "TrimSpace ascii_stdlib = asciiTrimSpace"
  by (simp add: ascii_stdlib_def)

lemma ascii_Base: "Base ascii_stdlib = posixBase"
  by (simp add: ascii_stdlib_def)

lemmas ascii_eval =
  cleanWord_ascii ascii_ToLower ascii_ToUpper ascii_TrimSpace ascii_Base
  asciiLetter_def asciiDigit_def asciiUpper_def asciiLower_def asciiSpace_def
  asciiToLower_def asciiToUpper_def asciiTrimSpace_def posixBase_def

lemmas branch_eval =
  FormatBranchName_def FieldsFunc_def isSeparator_def ascii_eval

text \<open>The four cases of \<open>TestFormatBranchName\<close> in \<open>branch_test.go\<close>.\<close>

lemma FormatBranchName_test_basic:
  "FormatBranchName ascii_stdlib ''feat'' ''WAB-1234'' ''Add user authentication''
     = ''feat/WAB-1234/add_user_authentication''"
  by (simp add: branch_eval)

lemma FormatBranchName_test_special_chars:
  "FormatBranchName ascii_stdlib ''fix'' ''PROJ-999'' ''Fix bug: login doesn't work!''
     = ''fix/PROJ-999/fix_bug_login_doesnt_work''"
  by (simp add: branch_eval)

lemma FormatBranchName_test_numbers:
  "FormatBranchName ascii_stdlib ''feat'' ''ABC-42'' ''Update Node.js to v20''
     = ''feat/ABC-42/update_node_js_to_v20''"
  by (simp add: branch_eval)

lemma FormatBranchName_test_empty_summary:
  "FormatBranchName ascii_stdlib ''test'' ''TICKET-1'' [] = ''test/TICKET-1''"
  by (simp add: branch_eval)

subsection \<open>\<open>ExtractTicketID\<close>\<close>

text \<open>
  The two later checks of \<open>ExtractTicketID\<close> never fire: a segment that contains \<open>-\<close>
  splits into at least two pieces, and two pieces joined by \<open>-\<close> are not empty.
\<close>

lemma ExtractTicketID_cases:
  "ExtractTicketID branch =
     (if length (Split branch CHR ''/'') < 2 then Inl (CorrelationError branch)
      else if Contains (Split branch CHR ''/'' ! 1) ''-''
      then Inr (Join (take 2 (Split (Split branch CHR ''/'' ! 1) CHR ''-'')) ''-'')
      else Inl (CorrelationError branch))"
proof (cases "2 \<le> length (Split branch CHR ''/'') \<and> Contains (Split branch CHR ''/'' ! 1) ''-''")
  case False
  then show ?thesis by (auto simp: ExtractTicketID_def Let_def)
next
  case True
  then have "CHR ''-'' \<in> set (Split branch CHR ''/'' ! 1)"
    by (simp add: Contains_single)
  then have two: "2 \<le> length (Split (Split branch CHR ''/'' ! 1) CHR ''-'')"
    by (rule Split_two)
  then have "Join (take 2 (Split (Split branch CHR ''/'' ! 1) CHR ''-'')) ''-'' \<noteq> []"
    by (rule Join_two_not_Nil)
  with True two show ?thesis
    by (simp add: ExtractTicketID_def Let_def)
qed

text \<open>
  C8.  \<open>ExtractTicketID\<close> fails with the correlation error when the branch name has fewer
  than two \<open>/\<close>-separated segments, and when its second segment contains no \<open>-\<close>; in every
  other case it returns the first two \<open>-\<close>-separated pieces of the second segment, joined
  by \<open>-\<close>.  In particular it fails on \<open>main\<close>.
\<close>

theorem ExtractTicketID_spec:
  "(length (Split branch CHR ''/'') < 2 \<longrightarrow> ExtractTicketID branch = Inl (CorrelationError branch)) \<and>
   (2 \<le> length (Split branch CHR ''/'') \<and> \<not> Contains (Split branch CHR ''/'' ! 1) ''-''
      \<longrightarrow> ExtractTicketID branch = Inl (CorrelationError branch)) \<and>
   (2 \<le> length (Split branch CHR ''/'') \<and> Contains (Split branch CHR ''/'' ! 1) ''-''
      \<longrightarrow> ExtractTicketID branch
            = Inr (Join (take 2 (Split (Split branch CHR ''/'' ! 1) CHR ''-'')) ''-'')) \<and>
   ExtractTicketID ''main'' = Inl (CorrelationError ''main'')"
proof (intro conjI impI)
  assume "length (Split branch CHR ''/'') < 2"
  then show "ExtractTicketID branch = Inl (CorrelationError branch)"
    by (simp add: ExtractTicketID_cases)
next
  assume "2 \<le> length (Split branch CHR ''/'') \<and> \<not> Contains (Split branch CHR ''/'' ! 1) ''-''"
  then show "ExtractTicketID branch = Inl (CorrelationError branch)"
    by (simp add: ExtractTicketID_cases)
next
  assume "2 \<le> length (Split branch CHR ''/'') \<and> Contains (Split branch CHR ''/'' ! 1) ''-''"
  then show "ExtractTicketID branch
            = Inr (Join (take 2 (Split (Split branch CHR ''/'' ! 1) CHR ''-'')) ''-'')"
    by (simp add: ExtractTicketID_cases)
next
  have "Split ''main'' CHR ''/'' = [''main'']"
    by (simp add: Split_no_sep)
  then show "ExtractTicketID ''main'' = Inl (CorrelationError ''main'')"
    by (simp add: ExtractTicketID_cases)
qed

theorem ExtractTicketID_spec_witness:
  "ExtractTicketID ''main'' = Inl (CorrelationError ''main'') \<and>
   ExtractTicketID ''feat/WAB3848'' = Inl (CorrelationError ''feat/WAB3848'') \<and>
   ExtractTicketID ''feat/WAB-3848/implement_attempts_doc_logic'' = Inr ''WAB-3848'' \<and>
   ExtractTicketID ''feat/WAB-3848-hotfix/retry'' = Inr ''WAB-3848''"
  using ExtractTicketID_spec [of "''main''"]
        ExtractTicketID_spec [of "''feat/WAB3848''"]
        ExtractTicketID_spec [of "''feat/WAB-3848/implement_attempts_doc_logic''"]
        ExtractTicketID_spec [of "''feat/WAB-3848-hotfix/retry''"]
  by (simp add: Contains_single numeral_2_eq_2)

subsection \<open>The round trip\<close>

lemma FormatBranchName_shape:
  "\<exists>rest. FormatBranchName L p ticketID summary = p @ ''/'' @ ticketID @ rest
          \<and> (rest = [] \<or> hd rest = CHR ''/'')"
  by (auto simp: FormatBranchName_def Let_def)

lemma Split_second:
  assumes "CHR ''/'' \<notin> set p" and "CHR ''/'' \<notin> set t" and "rest = [] \<or> hd rest = CHR ''/''"
  shows "2 \<le> length (Split (p @ ''/'' @ t @ rest) CHR ''/'')
         \<and> Split (p @ ''/'' @ t @ rest) CHR ''/'' ! 1 = t"
proof (cases rest)
  case Nil
  with assms show ?thesis by (simp add: Split_first Split_no_sep)
next
  case (Cons c r)
  with assms have "c = CHR ''/''" by simp
  with Cons assms show ?thesis by (simp add: Split_first)
qed

text \<open>
  The round trip needs nothing of the ID but that it has no \<open>/\<close> and exactly one \<open>-\<close>;
  so it also holds for letters and digits outside ASCII, whose UTF-8 bytes are all
  0x80 or above.
\<close>

lemma roundtrip_general:
  assumes "CHR ''/'' \<notin> set p" and "CHR ''/'' \<notin> set a" and "CHR ''/'' \<notin> set d"
    and "CHR ''-'' \<notin> set a" and "CHR ''-'' \<notin> set d"
  shows "ExtractTicketID (FormatBranchName L p (a @ ''-'' @ d) summary) = Inr (a @ ''-'' @ d)"
proof -
  let ?t = "a @ ''-'' @ d"
  obtain rest where r: "FormatBranchName L p ?t summary = p @ ''/'' @ ?t @ rest"
    "rest = [] \<or> hd rest = CHR ''/''"
    using FormatBranchName_shape by blast
  have nt: "CHR ''/'' \<notin> set ?t" using assms by simp
  from Split_second[OF assms(1) nt r(2)]
  have s: "2 \<le> length (Split (p @ ''/'' @ ?t @ rest) CHR ''/'')"
    "Split (p @ ''/'' @ ?t @ rest) CHR ''/'' ! 1 = ?t"
    by simp_all
  have seg: "Split ?t CHR ''-'' = [a, d]"
    using assms by (simp add: Split_first Split_no_sep)
  show ?thesis
    unfolding r(1) ExtractTicketID_cases using s seg by (simp add: Contains_single)
qed

lemma asciiLetter_not_sep: "asciiLetter c \<Longrightarrow> c \<noteq> CHR ''/'' \<and> c \<noteq> CHR ''-''"
  by (auto simp: asciiLetter_def asciiUpper_def asciiLower_def)

lemma asciiDigit_not_sep: "asciiDigit c \<Longrightarrow> c \<noteq> CHR ''/'' \<and> c \<noteq> CHR ''-''"
  by (auto simp: asciiDigit_def)

text \<open>
  C1, as stated, at a prefix that contains a \<open>/\<close>: the second segment of the branch name
  is then a part of the prefix, not the ticket ID.
\<close>

theorem roundtrip_slash_prefix_counterexample:
  "ExtractTicketID (FormatBranchName ascii_stdlib ''users/alice'' ''WAB-1234'' ''Add user authentication'')
     \<noteq> Inr ''WAB-1234''"
  by (simp add: branch_eval ExtractTicketID_def Contains_single)

text \<open>
  C1, amended.  For every prefix that contains no \<open>/\<close>, every ticket ID made of a non-empty
  sequence of letters, a hyphen and a non-empty sequence of digits, and every summary (the
  empty one included), \<open>ExtractTicketID\<close> succeeds on the branch name \<open>FormatBranchName\<close>
  builds and returns exactly the ticket ID.
\<close>

theorem roundtrip:
  assumes "CHR ''/'' \<notin> set p"
    and "alpha \<noteq> []" and "list_all asciiLetter alpha"
    and "digits \<noteq> []" and "list_all asciiDigit digits"
  shows "ExtractTicketID (FormatBranchName L p (alpha @ ''-'' @ digits) summary)
           = Inr (alpha @ ''-'' @ digits)"
proof (rule roundtrip_general)
  show "CHR ''/'' \<notin> set p" by (rule assms(1))
  show "CHR ''/'' \<notin> set alpha" "CHR ''-'' \<notin> set alpha"
    using assms(3) asciiLetter_not_sep by (auto simp: list_all_iff)
  show "CHR ''/'' \<notin> set digits" "CHR ''-'' \<notin> set digits"
    using assms(5) asciiDigit_not_sep by (auto simp: list_all_iff)
qed

theorem roundtrip_witness:
  "CHR ''/'' \<notin> set ''feat'' \<and> ''WAB'' \<noteq> [] \<and> list_all asciiLetter ''WAB'' \<and>
   ''1234'' \<noteq> [] \<and> list_all asciiDigit ''1234'' \<and>
   ExtractTicketID (FormatBranchName ascii_stdlib ''feat'' ''WAB-1234'' ''Add user authentication'')
     = Inr ''WAB-1234'' \<and>
   ExtractTicketID (FormatBranchName ascii_stdlib ''feat'' ''WAB-1234'' []) = Inr ''WAB-1234''"
  using roundtrip [of "''feat''" "''WAB''" "''1234''" ascii_stdlib "''Add user authentication''"]
        roundtrip [of "''feat''" "''WAB''" "''1234''" ascii_stdlib "[]"]
  by (simp add: asciiLetter_def asciiDigit_def asciiUpper_def asciiLower_def)

subsection \<open>\<open>FormatBranchName\<close> against the specification's pipeline\<close>

lemma splitOn_not_Nil: "splitOn f s \<noteq> []"
  by (induction s) (auto split: list.splits)

lemma FieldsFunc_loop_splitOn:
  "FieldsFunc_loop f s start spans =
     spans @ (case start of
                None \<Rightarrow> filter (\<lambda>t. t \<noteq> []) (splitOn f s)
              | Some w \<Rightarrow> (case splitOn f s of
                             [] \<Rightarrow> [w]
                           | t # ts \<Rightarrow> (w @ t) # filter (\<lambda>t. t \<noteq> []) ts))"
proof (induction s arbitrary: start spans)
  case Nil
  then show ?case by (simp split: option.splits)
next
  case (Cons c s)
  show ?case
    using splitOn_not_Nil[of f s]
    by (cases start; cases "splitOn f s"; simp add: Cons.IH)
qed

lemma FieldsFunc_spec_tokens: "FieldsFunc s f = spec_tokens f s"
  by (simp add: FieldsFunc_def spec_tokens_def FieldsFunc_loop_splitOn)

lemma cleanLoop_take:
  "length cleaned < 5 \<Longrightarrow>
   cleanLoop L ws cleaned =
     cleaned @ take (5 - length cleaned) (filter (\<lambda>t. 1 < length t) (map (cleanWord L) ws))"
proof (induction ws arbitrary: cleaned)
  case Nil
  then show ?case by simp
next
  case (Cons w ws)
  show ?case
  proof (cases "1 < length (cleanWord L w)")
    case False
    with Cons show ?thesis by (simp add: Let_def)
  next
    case long: True
    show ?thesis
    proof (cases "length cleaned = 4")
      case True
      with long show ?thesis by (simp add: Let_def)
    next
      case False
      with Cons.prems have "length (cleaned @ [cleanWord L w]) < 5" by simp
      from Cons.IH[OF this] long False Cons.prems show ?thesis
        by (simp add: Let_def Suc_diff_Suc take_Cons')
    qed
  qed
qed

lemma cleanLoop_spec:
  "cleanLoop L ws [] = take 5 (filter (\<lambda>t. 1 < length t) (map (cleanWord L) ws))"
  using cleanLoop_take[of "[]" L ws] by simp

lemma cleanWord_spec: "cleanWord L t = spec_text L (spec_strip L t)"
  by (simp add: cleanWord_def spec_text_def spec_strip_def)

text \<open>
  Where, on every token, the cleaned token has more than one byte exactly when it has
  more than one character, discarding by bytes and discarding by characters leave the
  same tokens.
\<close>

lemma survivors_bytes:
  assumes "\<forall>t \<in> set ws. (1 < length (spec_text L (spec_strip L t))) = (1 < length (spec_strip L t))"
  shows "filter (\<lambda>t. 1 < length t) (map (cleanWord L) ws)
           = map (spec_text L) (filter (\<lambda>rs. 1 < length rs) (map (spec_strip L) ws))"
  using assms by (induction ws) (simp_all add: cleanWord_spec)

lemma spec_formatBranchName_bytes:
  assumes "\<forall>t \<in> set (spec_tokens sep (ToLower L summary)).
             (1 < length (spec_text L (spec_strip L t))) = (1 < length (spec_strip L t))"
  shows "spec_formatBranchName sep L p ticketID summary =
           (let kept = take 5 (filter (\<lambda>t. 1 < length t)
                                (map (cleanWord L) (spec_tokens sep (ToLower L summary))))
            in if kept = [] then p @ ''/'' @ ticketID
               else p @ ''/'' @ ticketID @ ''/'' @ Join kept ''_'')"
proof -
  have e: "filter (\<lambda>t. 1 < length t) (map (cleanWord L) (spec_tokens sep (ToLower L summary)))
             = map (spec_text L)
                 (filter (\<lambda>rs. 1 < length rs)
                    (map (spec_strip L) (spec_tokens sep (ToLower L summary))))"
    by (rule survivors_bytes [OF assms])
  show ?thesis
    unfolding spec_formatBranchName_def Let_def e take_map by simp
qed

lemma isSeparator_space: "isSeparator = spaceOrPunctuation"
  by (auto simp: isSeparator_def spaceOrPunctuation_def punctuation_def fun_eq_iff)

lemma FormatBranchName_refines:
  assumes "\<forall>t \<in> set (spec_tokens isSeparator (ToLower L summary)).
             (1 < length (spec_text L (spec_strip L t))) = (1 < length (spec_strip L t))"
  shows "FormatBranchName L p ticketID summary
           = spec_formatBranchName isSeparator L p ticketID summary"
  by (simp add: spec_formatBranchName_bytes [OF assms] FormatBranchName_def
                FieldsFunc_spec_tokens cleanLoop_spec Let_def)

text \<open>On ASCII text a character is a byte, so the two lengths are the same.\<close>

lemma ascii_lengths:
  "length (spec_text ascii_stdlib (spec_strip ascii_stdlib t)) = length (spec_strip ascii_stdlib t)"
  by (simp add: spec_text_def ascii_stdlib_def length_concat comp_def sum_list_triv)

lemma spec_formatBranchName_ascii:
  "spec_formatBranchName sep ascii_stdlib p ticketID summary =
     (let kept = take 5 (filter (\<lambda>t. 1 < length t)
                          (map (cleanWord ascii_stdlib) (spec_tokens sep (ToLower ascii_stdlib summary))))
      in if kept = [] then p @ ''/'' @ ticketID
         else p @ ''/'' @ ticketID @ ''/'' @ Join kept ''_'')"
  by (rule spec_formatBranchName_bytes) (simp add: ascii_lengths)

text \<open>
  C2, as stated, at a summary with a tab in it: the claim splits on the tab and yields two
  tokens, the program does not split there, strips the tab from the one token and yields
  \<open>fixbug\<close>.
\<close>

theorem FormatBranchName_tab_counterexample:
  "FormatBranchName ascii_stdlib ''feat'' ''WAB-1'' (''fix'' @ [CHR 0x09] @ ''bug'')
     \<noteq> spec_formatBranchName whitespaceOrPunctuation ascii_stdlib ''feat'' ''WAB-1''
         (''fix'' @ [CHR 0x09] @ ''bug'')"
  by (simp add: branch_eval spec_formatBranchName_ascii spec_tokens_def
                whitespaceOrPunctuation_def punctuation_def)

text \<open>
  C2, amended.  For every prefix and ticket ID, and for every summary none of whose cleaned
  tokens is a single character of more than one byte (on each token, more than one byte
  exactly when more than one character; every ASCII summary is such), \<open>FormatBranchName\<close>
  returns (it has no error result) what the pipeline returns that lower-cases the summary,
  splits it on the space character and on \<open>: ! ? , ; .\<close>, strips every character that is
  neither letter nor digit from each token, discards the cleaned tokens of length at most
  1, keeps the first five of the rest and joins them with \<open>_\<close>: \<open>prefix/ticketID/joined\<close>,
  or \<open>prefix/ticketID\<close> when no token is left.
\<close>

theorem FormatBranchName_spec:
  assumes "\<forall>t \<in> set (spec_tokens spaceOrPunctuation (ToLower L summary)).
             (1 < length (spec_text L (spec_strip L t))) = (1 < length (spec_strip L t))"
  shows "FormatBranchName L p ticketID summary
           = spec_formatBranchName spaceOrPunctuation L p ticketID summary"
proof -
  have sep: "isSeparator = spaceOrPunctuation"
    by (rule isSeparator_space)
  have "FormatBranchName L p ticketID summary
          = spec_formatBranchName isSeparator L p ticketID summary"
    using assms by (intro FormatBranchName_refines) (simp add: sep)
  then show ?thesis
    by (simp add: sep)
qed

theorem FormatBranchName_spec_witness:
  "spec_formatBranchName spaceOrPunctuation ascii_stdlib ''fix'' ''PROJ-999''
     ''Fix bug: login doesn't work!'' = ''fix/PROJ-999/fix_bug_login_doesnt_work'' \<and>
   spec_formatBranchName spaceOrPunctuation ascii_stdlib ''test'' ''TICKET-1'' [] = ''test/TICKET-1''"
proof -
  have agree: "\<forall>t \<in> set (spec_tokens spaceOrPunctuation (ToLower ascii_stdlib summary)).
                 (1 < length (spec_text ascii_stdlib (spec_strip ascii_stdlib t)))
                   = (1 < length (spec_strip ascii_stdlib t))" for summary
    by (simp add: ascii_lengths)
  from FormatBranchName_spec [OF agree, of "''fix''" "''PROJ-999''" "''Fix bug: login doesn't work!''"]
       FormatBranchName_spec [OF agree, of "''test''" "''TICKET-1''" "[]"]
  show ?thesis
    by (simp add: FormatBranchName_test_special_chars FormatBranchName_test_empty_summary)
qed

subsection \<open>A single letter of more than one byte\<close>

lemma splitOn_no_separator: "\<forall>c \<in> set s. \<not> sep c \<Longrightarrow> splitOn sep s = [s]"
  by (induction s) simp_all

lemma spec_tokens_one_word:
  "w \<noteq> [] \<Longrightarrow> \<forall>c \<in> set w. \<not> sep c \<Longrightarrow> spec_tokens sep w = [w]"
  by (simp add: spec_tokens_def splitOn_no_separator)

text \<open>
  Where the two lengths differ.  A summary that is one word, of which one letter is left
  whose encoding has more than one byte: the pipeline counts one character and discards
  the token, the program counts the bytes and keeps it.
\<close>

lemma FormatBranchName_one_letter:
  assumes "ToLower L summary \<noteq> []" and "\<forall>c \<in> set (ToLower L summary). \<not> isSeparator c"
    and "filter (\<lambda>r. IsLetter L r \<or> IsDigit L r) (decodeRunes L (ToLower L summary)) = [r]"
    and "1 < length (encodeRune L r)"
  shows "FormatBranchName L p ticketID summary = p @ ''/'' @ ticketID @ ''/'' @ encodeRune L r"
    and "spec_formatBranchName spaceOrPunctuation L p ticketID summary = p @ ''/'' @ ticketID"
  using assms
  by (simp_all add: FormatBranchName_def FieldsFunc_spec_tokens spec_tokens_one_word cleanWord_def
                    spec_formatBranchName_def spec_strip_def Let_def
                    isSeparator_space [symmetric])

section \<open>Verification: \<open>MaskToken\<close>\<close>

lemma MaskToken_short:
  "length token \<le> 4 \<Longrightarrow> MaskToken token = replicate (length token) CHR ''*''"
  by (simp add: MaskToken_def Repeat_single)

lemma MaskToken_long:
  "4 < length token \<Longrightarrow>
   MaskToken token = take 4 token @ ''***'' @ drop (length token - 4) token"
  by (simp add: MaskToken_def headEnd_def tailStart_def Let_def nat_diff_distrib' min_def)

lemma MaskToken_reveal:
  assumes "5 \<le> length token" and "length token \<le> 8"
  shows "take 4 (MaskToken token) @ drop (15 - length token) (MaskToken token) = token"
proof -
  have m: "MaskToken token = take 4 token @ ''***'' @ drop (length token - 4) token"
    using assms by (simp add: MaskToken_long)
  have l4: "length (take 4 token) = 4" using assms by simp
  have "drop (15 - length token) (MaskToken token)
          = drop (8 - length token) (drop (length token - 4) token)"
    unfolding m using assms l4 by (simp add: drop_Cons')
  also have "\<dots> = drop 4 token" using assms by simp
  finally have d: "drop (15 - length token) (MaskToken token) = drop 4 token" .
  have "take 4 (MaskToken token) = take 4 token" unfolding m using l4 by simp
  with d show ?thesis by simp
qed

lemma slices_cover:
  assumes "5 \<le> length token" and "length token \<le> 8"
  shows "{0 ..< headEnd token} \<union> {tailStart token ..< length token} = {0 ..< length token}"
  using assms by (auto simp: headEnd_def tailStart_def)

lemma slices_overlap:
  assumes "5 \<le> length token" and "length token \<le> 7"
  shows "{0 ..< headEnd token} \<inter> {tailStart token ..< length token} \<noteq> {}"
proof -
  have "3 \<in> {0 ..< headEnd token} \<inter> {tailStart token ..< length token}"
    using assms by (auto simp: headEnd_def tailStart_def)
  then show ?thesis by blast
qed

text \<open>
  C10, as stated, at a token of length 8: the head is the bytes at positions 0 to 3, the
  tail those at positions 4 to 7, and no position belongs to both.  The two slices are
  adjacent there; they do not overlap.
\<close>

theorem MaskToken_length_8_counterexample:
  "{0 ..< headEnd ''abcdefgh''} \<inter> {tailStart ''abcdefgh'' ..< length ''abcdefgh''} = {}"
  by (simp add: headEnd_def tailStart_def)

text \<open>
  C10, amended.  \<open>MaskToken\<close> (which \<open>printConfig\<close> applies to both tokens it shows) returns
  as many asterisks as the token is long when that is at most 4, and otherwise the first
  four characters, \<open>***\<close>, and the last four.  For a token of length 5 to 7 the head and
  the tail overlap; for a token of length 5 to 8 they cover the token between them, so the
  output shows every character: the token is the first four characters of the output
  followed by the output from position \<open>15 - length token\<close> on.
\<close>

theorem MaskToken_spec:
  "(length token \<le> 4 \<longrightarrow> MaskToken token = replicate (length token) CHR ''*'') \<and>
   (4 < length token \<longrightarrow>
      MaskToken token = take 4 token @ ''***'' @ drop (length token - 4) token) \<and>
   (5 \<le> length token \<and> length token \<le> 7 \<longrightarrow>
      {0 ..< headEnd token} \<inter> {tailStart token ..< length token} \<noteq> {}) \<and>
   (5 \<le> length token \<and> length token \<le> 8 \<longrightarrow>
      {0 ..< headEnd token} \<union> {tailStart token ..< length token} = {0 ..< length token} \<and>
      take 4 (MaskToken token) @ drop (15 - length token) (MaskToken token) = token)"
  using MaskToken_short MaskToken_long MaskToken_reveal slices_cover slices_overlap by auto

theorem MaskToken_spec_witness:
  "MaskToken ''abc'' = ''***'' \<and>
   MaskToken ''abcdefghijkl'' = ''abcd***ijkl'' \<and>
   MaskToken ''abcdef'' = ''abcd***cdef'' \<and>
   take 4 ''abcd***cdef'' @ drop 9 ''abcd***cdef'' = ''abcdef'' \<and>
   {0 ..< headEnd ''abcdef''} \<inter> {tailStart ''abcdef'' ..< length ''abcdef''} \<noteq> {} \<and>
   MaskToken ''abcdefgh'' = ''abcd***efgh'' \<and>
   take 4 ''abcd***efgh'' @ drop 7 ''abcd***efgh'' = ''abcdefgh''"
  using MaskToken_spec [of "''abc''"] MaskToken_spec [of "''abcdefghijkl''"]
        MaskToken_spec [of "''abcdef''"] MaskToken_spec [of "''abcdefgh''"]
  by simp

section \<open>Verification: the workflows\<close>

subsection \<open>Running a handler\<close>

lemma andThen_alt:
  "andThen m k =
     (case snd m of
        Inl e \<Rightarrow> (fst m, Inl e)
      | Inr x \<Rightarrow> (fst m @ fst (k x), snd (k x)))"
  by (cases m) (auto simp: andThen_def split: sum.splits prod.splits)

lemmas action_defs = andThen_alt call_def attempt_def print_def fail_def succeed_def

lemmas world_defs =
  testWorld_def branchWorld_def dirtyWorld_def refusingWorld_def refusingBranchWorld_def
  githubWorld_def sixtyWorld_def testSettings_def testTicket_def transitionNotFound_def
  testSearch_def

text \<open>
  The two commands of \<open>TestEndToEndWorkflow\<close> that reach the tracker: \<open>start TEST-1\<close> creates
  \<open>feat/TEST-1/implement_widget\<close> and asks for \<open>In Progress\<close>; \<open>done\<close> pushes, creates one
  merge request and asks for \<open>In Review\<close>.
\<close>

lemma handleStart_testWorld:
  "handleStart ascii_stdlib testWorld ''TEST-1'' =
     ([ConfigLoad, GitNewClient, GitCurrentBranch,
       Stdout (line (Cyan (Bold ''Starting work on TEST-1...''))),
       Stdout (line []),
       Stdout (line (Dim ''  Fetching Jira ticket...'')),
       JiraGetTicket ''TEST-1'',
       Stdout (line (Green (''  '' @ checkMark @ '' Found: Implement widget''))),
       Stdout (line (Dim ''    Status: To Do'')),
       Stdout (line []),
       Stdout (line (Cyan ''  Creating branch: feat/TEST-1/implement_widget'')),
       GitCreateBranch ''feat/TEST-1/implement_widget'',
       Stdout (line (Cyan (''  Updating Jira status to '' @ apostrophe @ ''In Progress''
                           @ apostrophe @ ''...''))),
       JiraUpdateStatus ''TEST-1'' ''In Progress'',
       Stdout (line (Green (''  '' @ checkMark @ '' Status updated to '' @ apostrophe
                            @ ''In Progress'' @ apostrophe)))]
      @ map Stdout (startSummary ''TEST-1'' ''feat/TEST-1/implement_widget'' testTicket),
      Inr ())"
  by (simp add: handleStart_def startWork_def loadSettings_def action_defs world_defs
                branch_eval Contains_def sublist_code(3) Let_def)

lemma handleDone_branchWorld:
  "handleDone ascii_stdlib branchWorld =
     ([ConfigLoad, GitNewClient, GitIsClean, GitCurrentBranch,
       Stdout (line (Cyan (Bold ''Finalizing work...''))),
       Stdout (line []),
       Stdout (line (Dim ''  Pushing branch to remote...'')),
       GitPush ''feat/TEST-1/implement_widget'',
       Stdout (line (Dim ''  Fetching ticket information...'')),
       JiraGetTicket ''TEST-1'',
       Stdout (line (Dim ''  Creating merge request...'')),
       GitLabCreateMergeRequest ''widgets'' ''feat/TEST-1/implement_widget'' ''main''
         ''TEST-1: Implement widget''
         (''Resolves TEST-1'' @ nl @ nl @ ''Jira: https://jira.example.com/browse/TEST-1''),
       Stdout (line (Dim (''  Updating Jira status to '' @ apostrophe @ ''In Review''
                          @ apostrophe @ ''...''))),
       JiraUpdateStatus ''TEST-1'' ''In Review'',
       Stdout (line (Green (''  '' @ checkMark @ '' Status updated to '' @ apostrophe
                            @ ''In Review'' @ apostrophe)))]
      @ map Stdout (doneSummary ''TEST-1'' ''feat/TEST-1/implement_widget'' ''MR''
                      ''https://gitlab.example.com/mr/1''),
      Inr ())"
  by (simp add: handleDone_def createRequest_def loadSettings_def action_defs world_defs
                ascii_eval ExtractTicketID_def Contains_single Let_def numeral_2_eq_2)

lemma handleDone_githubWorld:
  "GitHubCreatePullRequest ''feat/TEST-1/implement_widget'' ''main''
     ''TEST-1: Implement widget''
     (''Resolves TEST-1'' @ nl @ nl @ ''Jira: https://jira.example.com/browse/TEST-1'')
     \<in> set (fst (handleDone ascii_stdlib githubWorld))"
  by (simp add: handleDone_def createRequest_def loadSettings_def action_defs world_defs
                ascii_eval ExtractTicketID_def Contains_single Let_def numeral_2_eq_2)

subsection \<open>The guard of \<open>start\<close>\<close>

text \<open>
  C5.  Whenever \<open>start\<close> asks the version-control gateway for the current branch and the
  gateway reports a branch whose upper-cased name contains the upper-cased ticket ID,
  \<open>start\<close> prints \<open>Already on branch\<close> and returns \<open>nil\<close>: all it has done is load the
  configuration, open the repository and read the branch.  It makes no call to the
  tracker and changes nothing in the repository.
\<close>

theorem handleStart_already_started:
  assumes "GitCurrentBranch \<in> set (fst (handleStart L w ticketID))"
    and "git_CurrentBranch w = Inr branch"
    and "Contains (ToUpper L branch) (ToUpper L ticketID)"
  shows "handleStart L w ticketID =
           ([ConfigLoad, GitNewClient, GitCurrentBranch,
             Stdout (line (Yellow (''Already on branch: '' @ branch))),
             Stdout (line (Dim (''Run '' @ apostrophe @ ''devflow status'' @ apostrophe
                                @ '' to see current state'')))],
            Inr ()) \<and>
         list_all (\<lambda>e. \<not> trackerOperation e \<and> \<not> versionControlMutation e)
           (fst (handleStart L w ticketID))"
  using assms
  by (auto simp: handleStart_def loadSettings_def action_defs split: sum.splits if_splits)

theorem handleStart_already_started_witness:
  "GitCurrentBranch \<in> set (fst (handleStart ascii_stdlib branchWorld ''test-1'')) \<and>
   git_CurrentBranch branchWorld = Inr ''feat/TEST-1/implement_widget'' \<and>
   Contains (ToUpper ascii_stdlib ''feat/TEST-1/implement_widget'') (ToUpper ascii_stdlib ''test-1'') \<and>
   snd (handleStart ascii_stdlib branchWorld ''test-1'') = Inr () \<and>
   list_all (\<lambda>e. \<not> trackerOperation e \<and> \<not> versionControlMutation e)
     (fst (handleStart ascii_stdlib branchWorld ''test-1''))"
proof -
  have b: "git_CurrentBranch branchWorld = Inr ''feat/TEST-1/implement_widget''"
    by (simp add: world_defs)
  have c: "Contains (ToUpper ascii_stdlib ''feat/TEST-1/implement_widget'')
             (ToUpper ascii_stdlib ''test-1'')"
    by (simp add: ascii_eval Contains_def sublist_code(3))
  have a: "GitCurrentBranch \<in> set (fst (handleStart ascii_stdlib branchWorld ''test-1''))"
    using c by (simp add: handleStart_def loadSettings_def action_defs world_defs)
  from handleStart_already_started [OF a b c] a b c show ?thesis by simp
qed

subsection \<open>The clean-tree check of \<open>done\<close>\<close>

text \<open>
  C6.  Whenever \<open>done\<close> asks the version-control gateway whether the working tree is clean
  and the gateway reports that it is not, \<open>done\<close> returns the error
  \<open>uncommitted changes detected. Commit or stash before running 'devflow done'\<close>, a message
  of its own and not an error of the gateway, having loaded the configuration, opened the
  repository and asked that one question: no push, no ticket fetch, no pull or merge
  request, no status transition.
\<close>

theorem handleDone_uncommitted:
  assumes "GitIsClean \<in> set (fst (handleDone L w))"
    and "git_IsClean w = Inr False"
  shows "handleDone L w = ([ConfigLoad, GitNewClient, GitIsClean], Inl uncommittedChanges) \<and>
         uncommittedChanges
           = ''uncommitted changes detected. Commit or stash before running '' @ apostrophe
             @ ''devflow done'' @ apostrophe \<and>
         list_all (\<lambda>e. \<not> trackerOperation e \<and> \<not> versionControlMutation e \<and> \<not> codeHostOperation e)
           (fst (handleDone L w))"
  using assms
  by (auto simp: handleDone_def loadSettings_def action_defs uncommittedChanges_def
           split: sum.splits if_splits)

theorem handleDone_uncommitted_witness:
  "GitIsClean \<in> set (fst (handleDone ascii_stdlib dirtyWorld)) \<and>
   git_IsClean dirtyWorld = Inr False \<and>
   handleDone ascii_stdlib dirtyWorld = ([ConfigLoad, GitNewClient, GitIsClean], Inl uncommittedChanges)"
proof -
  have b: "git_IsClean dirtyWorld = Inr False"
    by (simp add: world_defs)
  have a: "GitIsClean \<in> set (fst (handleDone ascii_stdlib dirtyWorld))"
    by (simp add: handleDone_def loadSettings_def action_defs world_defs)
  from handleDone_uncommitted [OF a b] a b show ?thesis by simp
qed

text \<open>An error of the gateway itself is returned as it is.\<close>

lemma handleDone_gateway_error:
  "config_Load w = Inr settings \<Longrightarrow> git_NewClient w = Inr gitClient \<Longrightarrow> git_IsClean w = Inl err
   \<Longrightarrow> handleDone L w = ([ConfigLoad, GitNewClient, GitIsClean], Inl err)"
  by (simp add: handleDone_def loadSettings_def action_defs)

subsection \<open>The target branch\<close>

lemma createRequest_events:
  "e \<in> set (fst (createRequest L w settings provider gitClient branch prTitle prDescription)) \<Longrightarrow>
     (\<exists>s. e = Stdout s)
     \<or> e = GitHubCreatePullRequest branch ''main'' prTitle prDescription
     \<or> e = GitLabCreateMergeRequest (Base L gitClient) branch ''main'' prTitle prDescription"
  by (auto simp: createRequest_def action_defs Let_def split: if_splits)

lemma createRequest_no_update:
  "JiraUpdateStatus t tr
     \<notin> set (fst (createRequest L w settings provider gitClient branch prTitle prDescription))"
  using createRequest_events by blast

lemma createRequest_target:
  "(GitHubCreatePullRequest source target title description
      \<in> set (fst (createRequest L w settings provider gitClient branch prTitle prDescription))
      \<longrightarrow> target = ''main'') \<and>
   (GitLabCreateMergeRequest project source target title description
      \<in> set (fst (createRequest L w settings provider gitClient branch prTitle prDescription))
      \<longrightarrow> target = ''main'')"
  using createRequest_events [of "GitHubCreatePullRequest source target title description"
          L w settings provider gitClient branch prTitle prDescription]
        createRequest_events [of "GitLabCreateMergeRequest project source target title description"
          L w settings provider gitClient branch prTitle prDescription]
  by auto

text \<open>
  C7.  Every call of \<open>CreatePullRequest\<close> (GitHub) and of \<open>CreateMergeRequest\<close> (GitLab) that
  \<open>done\<close> makes has the string \<open>main\<close> as its target branch, whatever the repository, the
  configuration and the gateways' answers are.
\<close>

theorem handleDone_target_main:
  "(GitHubCreatePullRequest source target title description \<in> set (fst (handleDone L w))
      \<longrightarrow> target = ''main'') \<and>
   (GitLabCreateMergeRequest project source target title description \<in> set (fst (handleDone L w))
      \<longrightarrow> target = ''main'')"
  using createRequest_target [of source target title description L w]
        createRequest_target [of _ _ _ _ L w _ _ _ _ _ _ project]
  by (auto simp: handleDone_def loadSettings_def action_defs Let_def split: sum.splits if_splits)

theorem handleDone_target_main_witness:
  "GitLabCreateMergeRequest ''widgets'' ''feat/TEST-1/implement_widget'' ''main''
     ''TEST-1: Implement widget''
     (''Resolves TEST-1'' @ nl @ nl @ ''Jira: https://jira.example.com/browse/TEST-1'')
     \<in> set (fst (handleDone ascii_stdlib branchWorld)) \<and>
   GitLabCreateMergeRequest ''widgets'' ''feat/TEST-1/implement_widget'' ''master''
     ''TEST-1: Implement widget''
     (''Resolves TEST-1'' @ nl @ nl @ ''Jira: https://jira.example.com/browse/TEST-1'')
     \<notin> set (fst (handleDone ascii_stdlib branchWorld)) \<and>
   GitHubCreatePullRequest ''feat/TEST-1/implement_widget'' ''main''
     ''TEST-1: Implement widget''
     (''Resolves TEST-1'' @ nl @ nl @ ''Jira: https://jira.example.com/browse/TEST-1'')
     \<in> set (fst (handleDone ascii_stdlib githubWorld)) \<and>
   GitHubCreatePullRequest ''feat/TEST-1/implement_widget'' ''master''
     ''TEST-1: Implement widget''
     (''Resolves TEST-1'' @ nl @ nl @ ''Jira: https://jira.example.com/browse/TEST-1'')
     \<notin> set (fst (handleDone ascii_stdlib githubWorld))"
  using handleDone_target_main [of _ "''master''" _ _ ascii_stdlib branchWorld]
        handleDone_target_main [of _ "''master''" _ _ ascii_stdlib githubWorld]
        handleDone_githubWorld
  by (auto simp: handleDone_branchWorld)

subsection \<open>The soft failure of the status transition\<close>

lemma JiraUpdateStatus_not_Stdout [simp]: "JiraUpdateStatus t tr \<notin> Stdout ` X"
  by auto

lemma startWork_soft:
  assumes ev: "JiraUpdateStatus t tr \<in> set (fst (startWork L w settings ticketID))"
    and err: "jira_UpdateStatus w t tr = Inl err"
  shows "snd (startWork L w settings ticketID) = Inr () \<and>
         (\<exists>before branchName ticket.
            fst (startWork L w settings ticketID)
              = before @ [JiraUpdateStatus t tr, Stdout (line (Yellow (''  Could not update status: '' @ err)))]
                @ map Stdout (startSummary ticketID branchName ticket))"
proof (cases "jira_GetTicket w ticketID")
  case (Inl e)
  with ev show ?thesis by (simp add: startWork_def action_defs)
next
  case ticket: (Inr ticket)
  define bn where "bn = FormatBranchName L
     (if BranchPrefix (Preferences settings) = [] then ''feat'' else BranchPrefix (Preferences settings))
     ticketID (Summary (Fields ticket))"
  show ?thesis
  proof (cases "git_CreateBranch w bn")
    case (Inl e)
    with ev ticket show ?thesis by (simp add: startWork_def action_defs Let_def bn_def)
  next
    case created: (Inr u)
    show ?thesis
    proof (cases "DefaultTransition (Preferences settings) = []")
      case True
      with ev ticket created show ?thesis
        by (simp add: startWork_def action_defs Let_def bn_def)
    next
      case False
      with ev ticket created have eq: "t = ticketID" "tr = DefaultTransition (Preferences settings)"
        by (auto simp add: startWork_def action_defs Let_def bn_def split: sum.splits)
      from False ticket created err eq
      have "startWork L w settings ticketID =
        ([Stdout (line (Cyan (Bold (''Starting work on '' @ ticketID @ ''...'')))),
          Stdout (line []),
          Stdout (line (Dim ''  Fetching Jira ticket...'')),
          JiraGetTicket ticketID,
          Stdout (line (Green (''  '' @ checkMark @ '' Found: '' @ Summary (Fields ticket)))),
          Stdout (line (Dim (''    Status: '' @ Name (Status (Fields ticket))))),
          Stdout (line []),
          Stdout (line (Cyan (''  Creating branch: '' @ bn))),
          GitCreateBranch bn,
          Stdout (line (Cyan (''  Updating Jira status to '' @ apostrophe @ tr @ apostrophe @ ''...'')))]
         @ [JiraUpdateStatus t tr, Stdout (line (Yellow (''  Could not update status: '' @ err)))]
         @ map Stdout (startSummary ticketID bn ticket), Inr ())"
        by (simp add: startWork_def action_defs Let_def bn_def)
      then show ?thesis by (metis fst_conv snd_conv)
    qed
  qed
qed

lemma handleStart_soft:
  assumes ev: "JiraUpdateStatus t tr \<in> set (fst (handleStart L w ticketID))"
    and err: "jira_UpdateStatus w t tr = Inl err"
  shows "snd (handleStart L w ticketID) = Inr () \<and>
         (\<exists>before branchName ticket.
            fst (handleStart L w ticketID)
              = before @ [JiraUpdateStatus t tr, Stdout (line (Yellow (''  Could not update status: '' @ err)))]
                @ map Stdout (startSummary ticketID branchName ticket))"
proof -
  have reach: "\<exists>settings. handleStart L w ticketID =
       ([ConfigLoad, GitNewClient, GitCurrentBranch] @ fst (startWork L w settings ticketID),
        snd (startWork L w settings ticketID))
       \<and> JiraUpdateStatus t tr \<in> set (fst (startWork L w settings ticketID))"
    using ev
    by (auto simp: handleStart_def loadSettings_def action_defs split: sum.splits if_splits)
  then obtain settings where h: "handleStart L w ticketID =
       ([ConfigLoad, GitNewClient, GitCurrentBranch] @ fst (startWork L w settings ticketID),
        snd (startWork L w settings ticketID))"
     and ev': "JiraUpdateStatus t tr \<in> set (fst (startWork L w settings ticketID))" by blast
  from startWork_soft[OF ev' err] obtain before bn ticket where
    r: "snd (startWork L w settings ticketID) = Inr ()"
       "fst (startWork L w settings ticketID)
              = before @ [JiraUpdateStatus t tr, Stdout (line (Yellow (''  Could not update status: '' @ err)))]
                @ map Stdout (startSummary ticketID bn ticket)" by blast
  have "fst (handleStart L w ticketID) = ([ConfigLoad, GitNewClient, GitCurrentBranch] @ before) @ [JiraUpdateStatus t tr, Stdout (line (Yellow (''  Could not update status: '' @ err)))]
                @ map Stdout (startSummary ticketID bn ticket)"
    using h r by simp
  moreover have "snd (handleStart L w ticketID) = Inr ()" using h r by simp
  ultimately show ?thesis by blast
qed

lemma handleDone_reach:
  assumes ev: "JiraUpdateStatus t tr \<in> set (fst (handleDone L w))"
  shows "\<exists>settings gitClient branch ticket prURL.
           config_Load w = Inr settings \<and> git_NewClient w = Inr gitClient \<and>
           git_IsClean w = Inr True \<and> git_CurrentBranch w = Inr branch \<and>
           ExtractTicketID branch = Inr t \<and> git_Push w branch = Inr () \<and>
           jira_GetTicket w t = Inr ticket \<and>
           snd (createRequest L w settings (ToLower L (Provider (Git settings))) gitClient branch
                  (t @ '': '' @ Summary (Fields ticket))
                  (''Resolves '' @ t @ nl @ nl @ ''Jira: '' @ URL (Jira settings) @ ''/browse/'' @ t))
             = Inr prURL \<and>
           tr = ''In Review''"
  using ev
  by (auto simp: handleDone_def loadSettings_def action_defs Let_def createRequest_no_update
           split: sum.splits if_splits)

lemma handleDone_soft:
  assumes ev: "JiraUpdateStatus t tr \<in> set (fst (handleDone L w))"
    and err: "jira_UpdateStatus w t tr = Inl err"
  shows "snd (handleDone L w) = Inr () \<and>
         (\<exists>before branch label prURL.
            fst (handleDone L w)
              = before @ [JiraUpdateStatus t tr, Stdout (line (Yellow (''  Could not update status: '' @ err)))]
                @ map Stdout (doneSummary t branch label prURL))"
proof -
  from handleDone_reach [OF ev] obtain settings gitClient branch ticket prURL where
    f: "config_Load w = Inr settings" "git_NewClient w = Inr gitClient"
           "git_IsClean w = Inr True" "git_CurrentBranch w = Inr branch"
           "ExtractTicketID branch = Inr t" "git_Push w branch = Inr ()"
           "jira_GetTicket w t = Inr ticket"
           "snd (createRequest L w settings (ToLower L (Provider (Git settings))) gitClient branch
                  (t @ '': '' @ Summary (Fields ticket))
                  (''Resolves '' @ t @ nl @ nl @ ''Jira: '' @ URL (Jira settings) @ ''/browse/'' @ t))
             = Inr prURL"
           "tr = ''In Review''"
    by blast
  define cr where "cr = fst (createRequest L w settings (ToLower L (Provider (Git settings))) gitClient branch
                  (t @ '': '' @ Summary (Fields ticket))
                  (''Resolves '' @ t @ nl @ nl @ ''Jira: '' @ URL (Jira settings) @ ''/browse/'' @ t))"
  define label where "label = (if ToLower L (Provider (Git settings)) = ''gitlab'' then ''MR'' else ''PR'')"
  have "handleDone L w =
     (([ConfigLoad, GitNewClient, GitIsClean, GitCurrentBranch,
       Stdout (line (Cyan (Bold ''Finalizing work...''))), Stdout (line []),
       Stdout (line (Dim ''  Pushing branch to remote...'')),
       GitPush branch,
       Stdout (line (Dim ''  Fetching ticket information...'')),
       JiraGetTicket t] @ cr @
       [Stdout (line (Dim (''  Updating Jira status to '' @ apostrophe @ ''In Review'' @ apostrophe @ ''...'')))])
       @ [JiraUpdateStatus t tr, Stdout (line (Yellow (''  Could not update status: '' @ err)))]
       @ map Stdout (doneSummary t branch label prURL), Inr ())"
    using f err
    by (simp add: handleDone_def loadSettings_def action_defs Let_def cr_def label_def)
  then show ?thesis by (metis fst_conv snd_conv)
qed

text \<open>The bytes of the warning: the message between the escape codes for yellow and reset.\<close>

lemma warning_bytes:
  "line (Yellow (''  Could not update status: '' @ err))
     = [CHR 0x1B] @ ''[33m  Could not update status: '' @ err @ [CHR 0x1B] @ ''[0m'' @ nl"
  by (simp add: line_def Yellow_def Colorize_def colorYellow_def colorReset_def)

text \<open>
  C4.  In \<open>start\<close> and in \<open>done\<close> alike: when the workflow gets as far as asking the tracker
  for the status transition (every step before it has succeeded; for \<open>start\<close>, a default
  transition is configured) and the tracker answers with an error, the workflow writes
  the line \<open>Could not update status: \<close> followed by the error, in yellow, right after the
  call, goes on to write its closing summary (\<open>All set! You're ready to code!\<close> with ticket,
  branch and summary; \<open>All done! Ready for review!\<close> with ticket, branch and the request's
  URL), and returns \<open>nil\<close>.
\<close>

theorem transition_failure_is_soft:
  "(JiraUpdateStatus t tr \<in> set (fst (handleStart L w ticketID)) \<and> jira_UpdateStatus w t tr = Inl err
      \<longrightarrow> snd (handleStart L w ticketID) = Inr () \<and>
          (\<exists>before branchName (ticket::JiraTicket).
             fst (handleStart L w ticketID)
               = before
                 @ [JiraUpdateStatus t tr,
                    Stdout ([CHR 0x1B] @ ''[33m  Could not update status: '' @ err
                            @ [CHR 0x1B] @ ''[0m'' @ nl)]
                 @ [Stdout nl,
                    Stdout (Green (Bold (sparkles @ '' All set! You're ready to code!'')) @ nl),
                    Stdout nl,
                    Stdout (''  '' @ Bold ''Ticket:'' @ '' '' @ BrightWhite ticketID @ nl),
                    Stdout (''  '' @ Bold ''Branch:'' @ '' '' @ BrightWhite branchName @ nl),
                    Stdout (''  '' @ Bold ''Summary:'' @ '' '' @ Dim (Summary (Fields ticket)) @ nl)])) \<and>
   (JiraUpdateStatus t tr \<in> set (fst (handleDone L w)) \<and> jira_UpdateStatus w t tr = Inl err
      \<longrightarrow> snd (handleDone L w) = Inr () \<and>
          (\<exists>before branch label prURL.
             fst (handleDone L w)
               = before
                 @ [JiraUpdateStatus t tr,
                    Stdout ([CHR 0x1B] @ ''[33m  Could not update status: '' @ err
                            @ [CHR 0x1B] @ ''[0m'' @ nl)]
                 @ [Stdout nl,
                    Stdout (Green (Bold ''All done! Ready for review!'') @ nl),
                    Stdout (''  '' @ Bold ''Ticket:'' @ '' '' @ BrightWhite t @ nl),
                    Stdout (''  '' @ Bold ''Branch:'' @ '' '' @ BrightWhite branch @ nl),
                    Stdout (''  '' @ Bold (label @ '':'') @ '' '' @ Cyan prURL @ nl)]))"
proof (intro conjI impI)
  assume a: "JiraUpdateStatus t tr \<in> set (fst (handleStart L w ticketID))
             \<and> jira_UpdateStatus w t tr = Inl err"
  then show "snd (handleStart L w ticketID) = Inr ()"
    using handleStart_soft by blast
  from a obtain before branchName ticket where
    "fst (handleStart L w ticketID)
       = before @ [JiraUpdateStatus t tr, Stdout (line (Yellow (''  Could not update status: '' @ err)))]
         @ map Stdout (startSummary ticketID branchName ticket)"
    using handleStart_soft by blast
  then have eq: "fst (handleStart L w ticketID)
       = before
         @ [JiraUpdateStatus t tr,
            Stdout ([CHR 0x1B] @ ''[33m  Could not update status: '' @ err @ [CHR 0x1B] @ ''[0m'' @ nl)]
         @ [Stdout nl,
            Stdout (Green (Bold (sparkles @ '' All set! You're ready to code!'')) @ nl),
            Stdout nl,
            Stdout (''  '' @ Bold ''Ticket:'' @ '' '' @ BrightWhite ticketID @ nl),
            Stdout (''  '' @ Bold ''Branch:'' @ '' '' @ BrightWhite branchName @ nl),
            Stdout (''  '' @ Bold ''Summary:'' @ '' '' @ Dim (Summary (Fields ticket)) @ nl)]"
    unfolding warning_bytes by (simp add: startSummary_def line_def)
  show "\<exists>before branchName (ticket::JiraTicket).
             fst (handleStart L w ticketID)
               = before
                 @ [JiraUpdateStatus t tr,
                    Stdout ([CHR 0x1B] @ ''[33m  Could not update status: '' @ err
                            @ [CHR 0x1B] @ ''[0m'' @ nl)]
                 @ [Stdout nl,
                    Stdout (Green (Bold (sparkles @ '' All set! You're ready to code!'')) @ nl),
                    Stdout nl,
                    Stdout (''  '' @ Bold ''Ticket:'' @ '' '' @ BrightWhite ticketID @ nl),
                    Stdout (''  '' @ Bold ''Branch:'' @ '' '' @ BrightWhite branchName @ nl),
                    Stdout (''  '' @ Bold ''Summary:'' @ '' '' @ Dim (Summary (Fields ticket)) @ nl)]"
    by (intro exI) (rule eq)
next
  assume a: "JiraUpdateStatus t tr \<in> set (fst (handleDone L w))
             \<and> jira_UpdateStatus w t tr = Inl err"
  then show "snd (handleDone L w) = Inr ()"
    using handleDone_soft by blast
  from a obtain before branch label prURL where
    "fst (handleDone L w)
       = before @ [JiraUpdateStatus t tr, Stdout (line (Yellow (''  Could not update status: '' @ err)))]
         @ map Stdout (doneSummary t branch label prURL)"
    using handleDone_soft by blast
  then have eq: "fst (handleDone L w)
       = before
         @ [JiraUpdateStatus t tr,
            Stdout ([CHR 0x1B] @ ''[33m  Could not update status: '' @ err @ [CHR 0x1B] @ ''[0m'' @ nl)]
         @ [Stdout nl,
            Stdout (Green (Bold ''All done! Ready for review!'') @ nl),
            Stdout (''  '' @ Bold ''Ticket:'' @ '' '' @ BrightWhite t @ nl),
            Stdout (''  '' @ Bold ''Branch:'' @ '' '' @ BrightWhite branch @ nl),
            Stdout (''  '' @ Bold (label @ '':'') @ '' '' @ Cyan prURL @ nl)]"
    unfolding warning_bytes by (simp add: doneSummary_def line_def)
  show "\<exists>before branch label prURL.
             fst (handleDone L w)
               = before
                 @ [JiraUpdateStatus t tr,
                    Stdout ([CHR 0x1B] @ ''[33m  Could not update status: '' @ err
                            @ [CHR 0x1B] @ ''[0m'' @ nl)]
                 @ [Stdout nl,
                    Stdout (Green (Bold ''All done! Ready for review!'') @ nl),
                    Stdout (''  '' @ Bold ''Ticket:'' @ '' '' @ BrightWhite t @ nl),
                    Stdout (''  '' @ Bold ''Branch:'' @ '' '' @ BrightWhite branch @ nl),
                    Stdout (''  '' @ Bold (label @ '':'') @ '' '' @ Cyan prURL @ nl)]"
    by (intro exI) (rule eq)
qed

theorem transition_failure_is_soft_witness:
  "JiraUpdateStatus ''TEST-1'' ''In Progress''
     \<in> set (fst (handleStart ascii_stdlib refusingWorld ''TEST-1'')) \<and>
   jira_UpdateStatus refusingWorld ''TEST-1'' ''In Progress''
     = Inl (''transition '' @ apostrophe @ ''In Progress'' @ apostrophe @ '' not found'') \<and>
   snd (handleStart ascii_stdlib refusingWorld ''TEST-1'') = Inr () \<and>
   Stdout ([CHR 0x1B] @ ''[33m  Could not update status: transition '' @ apostrophe
           @ ''In Progress'' @ apostrophe @ '' not found'' @ [CHR 0x1B] @ ''[0m'' @ nl)
     \<in> set (fst (handleStart ascii_stdlib refusingWorld ''TEST-1'')) \<and>
   Stdout (Green (Bold (sparkles @ '' All set! You're ready to code!'')) @ nl)
     \<in> set (fst (handleStart ascii_stdlib refusingWorld ''TEST-1'')) \<and>
   JiraUpdateStatus ''TEST-1'' ''In Review'' \<in> set (fst (handleDone ascii_stdlib refusingBranchWorld)) \<and>
   jira_UpdateStatus refusingBranchWorld ''TEST-1'' ''In Review''
     = Inl (''transition '' @ apostrophe @ ''In Review'' @ apostrophe @ '' not found'') \<and>
   snd (handleDone ascii_stdlib refusingBranchWorld) = Inr () \<and>
   Stdout ([CHR 0x1B] @ ''[33m  Could not update status: transition '' @ apostrophe
           @ ''In Review'' @ apostrophe @ '' not found'' @ [CHR 0x1B] @ ''[0m'' @ nl)
     \<in> set (fst (handleDone ascii_stdlib refusingBranchWorld)) \<and>
   Stdout (Green (Bold ''All done! Ready for review!'') @ nl)
     \<in> set (fst (handleDone ascii_stdlib refusingBranchWorld))"
proof -
  have s1: "JiraUpdateStatus ''TEST-1'' ''In Progress''
     \<in> set (fst (handleStart ascii_stdlib refusingWorld ''TEST-1''))"
    by (simp add: handleStart_def startWork_def loadSettings_def action_defs world_defs
                branch_eval Contains_def sublist_code(3) Let_def)
  have s2: "jira_UpdateStatus refusingWorld ''TEST-1'' ''In Progress''
     = Inl (''transition '' @ apostrophe @ ''In Progress'' @ apostrophe @ '' not found'')"
    by (simp add: world_defs)
  have d1: "JiraUpdateStatus ''TEST-1'' ''In Review''
     \<in> set (fst (handleDone ascii_stdlib refusingBranchWorld))"
    by (simp add: handleDone_def createRequest_def loadSettings_def action_defs world_defs
                ascii_eval ExtractTicketID_def Contains_single Let_def numeral_2_eq_2)
  have d2: "jira_UpdateStatus refusingBranchWorld ''TEST-1'' ''In Review''
     = Inl (''transition '' @ apostrophe @ ''In Review'' @ apostrophe @ '' not found'')"
    by (simp add: world_defs)
  note S = mp [OF conjunct1 [OF transition_failure_is_soft [of "''TEST-1''" "''In Progress''"
         ascii_stdlib refusingWorld "''TEST-1''"
         "''transition '' @ apostrophe @ ''In Progress'' @ apostrophe @ '' not found''"]]
       conjI [OF s1 s2]]
  have s3: "snd (handleStart ascii_stdlib refusingWorld ''TEST-1'') = Inr ()"
    by (rule conjunct1 [OF S])
  have s4: "Stdout ([CHR 0x1B] @ ''[33m  Could not update status: transition '' @ apostrophe
           @ ''In Progress'' @ apostrophe @ '' not found'' @ [CHR 0x1B] @ ''[0m'' @ nl)
     \<in> set (fst (handleStart ascii_stdlib refusingWorld ''TEST-1''))"
    using conjunct2 [OF S] by (elim exE) simp
  have s5: "Stdout (Green (Bold (sparkles @ '' All set! You're ready to code!'')) @ nl)
     \<in> set (fst (handleStart ascii_stdlib refusingWorld ''TEST-1''))"
    using conjunct2 [OF S] by (elim exE) simp
  note D = mp [OF conjunct2 [OF transition_failure_is_soft [of "''TEST-1''" "''In Review''"
         ascii_stdlib refusingBranchWorld "''TEST-1''"
         "''transition '' @ apostrophe @ ''In Review'' @ apostrophe @ '' not found''"]]
       conjI [OF d1 d2]]
  have d3: "snd (handleDone ascii_stdlib refusingBranchWorld) = Inr ()"
    by (rule conjunct1 [OF D])
  have d4: "Stdout ([CHR 0x1B] @ ''[33m  Could not update status: transition '' @ apostrophe
           @ ''In Review'' @ apostrophe @ '' not found'' @ [CHR 0x1B] @ ''[0m'' @ nl)
     \<in> set (fst (handleDone ascii_stdlib refusingBranchWorld))"
    using conjunct2 [OF D] by (elim exE) simp
  have d5: "Stdout (Green (Bold ''All done! Ready for review!'') @ nl)
     \<in> set (fst (handleDone ascii_stdlib refusingBranchWorld))"
    using conjunct2 [OF D] by (elim exE) simp
  from s1 s2 s3 s4 s5 d1 d2 d3 d4 d5 show ?thesis by (intro conjI)
qed

subsection \<open>The query of \<open>search\<close>\<close>

lemma escapeJQL_map:
  "escapeJQL q = concat (map (\<lambda>c. if c = CHR 0x22 then backslash @ quote else [c]) q)"
  by (induction q) (simp_all add: escapeJQL_def)

lemma handleSearch_query:
  "config_Load w = Inr settings \<Longrightarrow>
   JiraSearchWithJQL (Join (searchJQLParts L settings opts) '' AND '') (Limit opts)
     \<in> set (fst (handleSearch L w opts))"
  by (simp add: handleSearch_def loadSettings_def action_defs Let_def split: sum.splits)

text \<open>
  The assignee \<open>me\<close> becomes the clause \<open>assignee = currentUser()\<close>, and no clause
  \<open>assignee = "me"\<close> is built; the first clause is the free text, passed through
  \<open>escapeJQL\<close>, between double quotes.
\<close>

lemma searchJQLParts_me:
  assumes "Assignee opts = ''me''"
  shows "''assignee = currentUser()'' \<in> set (searchJQLParts L settings opts)"
    and "''assignee = '' @ quote @ ''me'' @ quote \<notin> set (searchJQLParts L settings opts)"
  using assms by (simp_all add: searchJQLParts_def Let_def)

lemma searchJQLParts_text:
  "hd (searchJQLParts L settings opts)
     = ''(summary ~ '' @ quote @ escapeJQL (Query opts) @ quote @ '' OR description ~ '' @ quote
       @ escapeJQL (Query opts) @ quote @ '')''"
  by (simp add: searchJQLParts_def Let_def)

text \<open>
  C9, at a free text that contains a backslash followed by a quote, \<open>a\"b\<close>: \<open>escapeJQL\<close>
  puts a backslash before the quote and leaves the backslash of the text as it is, so the
  clause reads \<open>"a\\"b"\<close>.  The two backslashes are one escaped backslash, and the quote
  after them is not escaped: it ends the literal, and \<open>b\<close> stands outside it.  \<open>escape\<close> of
  \<open>internal/config\<close> doubles the backslash first and keeps the whole text inside.
\<close>

theorem escapeJQL_backslash_quote:
  "Query backslashSearch = ''a'' @ backslash @ quote @ ''b'' \<and>
   escapeJQL (Query backslashSearch) = ''a'' @ backslash @ backslash @ quote @ ''b'' \<and>
   closesLiteral (escapeJQL (Query backslashSearch)) \<and>
   hd (searchJQLParts ascii_stdlib testSettings backslashSearch)
     = ''(summary ~ '' @ quote @ ''a'' @ backslash @ backslash @ quote @ ''b'' @ quote
       @ '' OR description ~ '' @ quote @ ''a'' @ backslash @ backslash @ quote @ ''b'' @ quote
       @ '')'' \<and>
   escape (Query backslashSearch)
     = ''a'' @ backslash @ backslash @ backslash @ quote @ ''b'' \<and>
   \<not> closesLiteral (escape (Query backslashSearch))"
  by (simp add: backslashSearch_def escapeJQL_def escape_def searchJQLParts_def Let_def)

subsection \<open>Truncated results\<close>

text \<open>
  \<open>search\<close>, when as many tickets came back as it asked for (and at least one), prints the
  notice that there may be more, and that is no error.
\<close>

lemma handleSearch_truncation_notice:
  assumes "config_Load w = Inr settings"
    and "jira_SearchWithJQL w (Join (searchJQLParts L settings opts) '' AND '') (Limit opts) = Inr tickets"
    and "tickets \<noteq> []" and "int (length tickets) = Limit opts"
  shows "set (map Stdout (truncationNotice (Limit opts))) \<subseteq> set (fst (handleSearch L w opts))"
    and "\<not> Interactive opts \<Longrightarrow> snd (handleSearch L w opts) = Inr ()"
  using assms
  by (auto simp: handleSearch_def loadSettings_def action_defs Let_def split: sum.splits)

lemma handleSearch_sixtyWorld:
  "handleSearch ascii_stdlib sixtyWorld testSearch =
     ([ConfigLoad,
       Stdout (line (Cyan (Bold (''Searching for: '' @ quote @ ''say '' @ quote @ ''hi'' @ quote @ quote)))),
       Stdout (line []),
       Stdout (line (Dim (''  JQL: (summary ~ '' @ quote @ ''say '' @ backslash @ quote @ ''hi''
                          @ backslash @ quote @ quote @ '' OR description ~ '' @ quote @ ''say ''
                          @ backslash @ quote @ ''hi'' @ backslash @ quote @ quote
                          @ '') AND project = TEST AND assignee = currentUser() AND status = ''
                          @ quote @ ''To Do'' @ quote))),
       Stdout (line []),
       JiraSearchWithJQL (''(summary ~ '' @ quote @ ''say '' @ backslash @ quote @ ''hi''
                          @ backslash @ quote @ quote @ '' OR description ~ '' @ quote @ ''say ''
                          @ backslash @ quote @ ''hi'' @ backslash @ quote @ quote
                          @ '') AND project = TEST AND assignee = currentUser() AND status = ''
                          @ quote @ ''To Do'' @ quote) 2,
       Stdout (''  '' @ Dim ''1'' @ ''. '' @ BrightWhite ''TEST-1'' @ '' ['' @ Yellow ''To Do''
               @ '']  Implement widget'' @ nl),
       Stdout (''  '' @ Dim ''2'' @ ''. '' @ BrightWhite ''TEST-1'' @ '' ['' @ Yellow ''To Do''
               @ '']  Implement widget'' @ nl),
       Stdout (line []),
       Stdout (line (Dim ''  Showing 2 of potentially more results. Use --limit to see more.''))],
      Inr ())"
  by (simp add: handleSearch_def searchJQLParts_def escapeJQL_def truncationNotice_def
                loadSettings_def action_defs world_defs ascii_eval Let_def colorStatus_def
                Itoa_def decimal.simps digitChar_def enumerate_eq_zip numeral_2_eq_2)

text \<open>
  C3, at \<open>devflow list\<close> against a tracker that holds sixty tickets of the user: the query is
  sent with the ceiling 50, fifty tickets come back and are printed under \<open>50 tickets found\<close>,
  and that is all \<open>list\<close> writes; nothing tells the caller that more may exist.
\<close>

theorem handleList_fifty_of_sixty:
  "handleList ascii_stdlib sixtyWorld [] [] False =
     ([ConfigLoad,
       JiraSearchWithJQL ''assignee = currentUser() AND project = TEST'' 50,
       Stdout (line (Cyan (Bold ''Your Assigned Tickets''))),
       Stdout (line []),
       Stdout (Dim [] @ ''  50 tickets found'' @ nl @ nl)]
      @ replicate 50 (Stdout (''  '' @ Bold (BrightWhite ''TEST-1'') @ '' ['' @ Yellow ''To Do''
                              @ '']  Implement widget'' @ nl)),
      Inr ())"
  by (simp add: handleList_def printTicketList_def loadSettings_def action_defs world_defs
                ascii_eval Let_def colorStatus_def Itoa_def decimal.simps digitChar_def)

end
